theory Spec2Isabelle
  imports Complex_Main "HOL-Library.Sublist" "HOL-Library.Multiset"
    "HOL-Library.Code_Target_Nat"
begin

section \<open>Python values used by the analyzers\<close>

text \<open>
  A Python \<^verbatim>\<open>str\<close> is a sequence of Unicode code points, so a text is a list of
  natural numbers and \<^verbatim>\<open>ord(c)\<close> is the number itself. Literals of the source are
  written as Isabelle strings and converted by \<open>py\<close>.

  Python's \<^verbatim>\<open>float\<close> values are modelled as exact real numbers; \<^verbatim>\<open>int\<close> values
  are unbounded integers.

  The Unicode character database is part of the Python runtime and not of this
  repository. Letters, digits and case mapping are the ASCII ones here
  (\<open>is_alpha\<close>, \<open>is_digit\<close>, \<open>is_word\<close>, \<open>lower\<close>); whitespace follows
  \<^verbatim>\<open>str.isspace\<close> on every code point.
\<close>

type_synonym pystr = "nat list"

definition py :: "string \<Rightarrow> pystr" where
  "py s = map of_char s"

datatype py_error = ZeroDivisionError | TypeError | OverflowError

text \<open>True division \<^verbatim>\<open>a / b\<close> of floats: raises on a zero divisor.\<close>

definition py_div :: "real \<Rightarrow> real \<Rightarrow> py_error + real" where
  "py_div a b = (if b = 0 then Inl ZeroDivisionError else Inr (a / b))"

text \<open>
  True division \<^verbatim>\<open>a / b\<close> of two \<^verbatim>\<open>int\<close> values: raises ZeroDivisionError on a zero
  divisor and OverflowError when the quotient is too large for a float, that is when
  it does not round to a finite double. The largest finite double is
  \<open>2\<^sup>1\<^sup>0\<^sup>2\<^sup>4 - 2\<^sup>9\<^sup>7\<^sup>1\<close>; rounding reaches beyond it from \<open>2\<^sup>1\<^sup>0\<^sup>2\<^sup>4 - 2\<^sup>9\<^sup>7\<^sup>0\<close> on.
\<close>

definition float_limit :: real where
  "float_limit = 2 ^ 1024 - 2 ^ 970"

text \<open>The limit written out, for evaluation.\<close>

lemma float_limit_code [code]:
  "float_limit =
     179769313486231580793728971405303415079934132710037826936173778980444968292764750946649017977587207096330286416692887910946555547851940402630657488671505820681908902000708383676273854845817711531764475730270069855571366959622842914819860834936475292719074168444365510704342711559699508093042880177904174497792"
  by (simp add: float_limit_def)

definition py_int_div :: "int \<Rightarrow> int \<Rightarrow> py_error + real" where
  "py_int_div a b =
     (if b = 0 then Inl ZeroDivisionError
      else if float_limit \<le> \<bar>of_int a / of_int b\<bar> then Inl OverflowError
      else Inr (of_int a / of_int b))"

text \<open>Sequencing of statements that may raise: the first exception wins.\<close>

definition on_ok :: "py_error + 'a \<Rightarrow> ('a \<Rightarrow> py_error + 'b) \<Rightarrow> py_error + 'b" where
  "on_ok r f = (case r of Inl e \<Rightarrow> Inl e | Inr v \<Rightarrow> f v)"

text \<open>\<^verbatim>\<open>d.get(key, default)\<close> on an optional dictionary entry.\<close>

definition get_or :: "'a option \<Rightarrow> 'a \<Rightarrow> 'a" where
  "get_or v d = (case v of None \<Rightarrow> d | Some x \<Rightarrow> x)"

definition is_digit :: "nat \<Rightarrow> bool" where
  "is_digit c = (48 \<le> c \<and> c \<le> 57)"

definition is_upper :: "nat \<Rightarrow> bool" where
  "is_upper c = (65 \<le> c \<and> c \<le> 90)"

definition is_lower :: "nat \<Rightarrow> bool" where
  "is_lower c = (97 \<le> c \<and> c \<le> 122)"

definition is_alpha :: "nat \<Rightarrow> bool" where
  "is_alpha c = (is_upper c \<or> is_lower c)"

text \<open>The class \<^verbatim>\<open>\w\<close> of the \<^verbatim>\<open>re\<close> module: letters, digits and the underscore.\<close>

definition is_word :: "nat \<Rightarrow> bool" where
  "is_word c = (is_alpha c \<or> is_digit c \<or> c = 95)"

definition is_space :: "nat \<Rightarrow> bool" where
  "is_space c = ((9 \<le> c \<and> c \<le> 13) \<or> (28 \<le> c \<and> c \<le> 32) \<or> c = 133 \<or> c = 160
     \<or> c = 5760 \<or> (8192 \<le> c \<and> c \<le> 8202) \<or> c = 8232 \<or> c = 8233 \<or> c = 8239
     \<or> c = 8287 \<or> c = 12288)"

definition lower_cp :: "nat \<Rightarrow> nat" where
  "lower_cp c = (if is_upper c then c + 32 else c)"

definition lower :: "pystr \<Rightarrow> pystr" where
  "lower s = map lower_cp s"

text \<open>The substring test \<^verbatim>\<open>sub in s\<close>.\<close>

fun contains :: "pystr \<Rightarrow> pystr \<Rightarrow> bool" where
  "contains sub [] = (sub = [])"
| "contains sub (c # cs) = (prefix sub (c # cs) \<or> contains sub cs)"

text \<open>\<^verbatim>\<open>sum(1 for x in xs if P(x))\<close>.\<close>

definition count_if :: "('a \<Rightarrow> bool) \<Rightarrow> 'a list \<Rightarrow> int" where
  "count_if P xs = int (length (filter P xs))"

text \<open>Decimal digits of a number, as an f-string formats it.\<close>

fun str_nat :: "nat \<Rightarrow> pystr" where
  "str_nat n = (if n < 10 then [48 + n] else str_nat (n div 10) @ [48 + n mod 10])"

definition str_int :: "int \<Rightarrow> pystr" where
  "str_int i = (if i < 0 then 45 # str_nat (nat (- i)) else str_nat (nat i))"

text \<open>
  \<^verbatim>\<open>round(x, n)\<close> on a float rounds to the nearest multiple of \<open>10\<^sup>-\<^sup>n\<close>, a tie
  going to the even neighbour.
\<close>

definition round_half_even :: "real \<Rightarrow> int" where
  "round_half_even x =
     (let f = \<lfloor>x\<rfloor>; d = x - of_int f in
      if d < 1 / 2 then f else if 1 / 2 < d then f + 1 else if even f then f else f + 1)"

definition py_round :: "real \<Rightarrow> nat \<Rightarrow> real" where
  "py_round x n = of_int (round_half_even (x * 10 ^ n)) / 10 ^ n"

text \<open>
  The statement pattern \<^verbatim>\<open>if c: score += n; flags.append(f)\<close> on the running pair
  of score and flags.
\<close>

fun bump :: "bool \<Rightarrow> int \<Rightarrow> pystr \<Rightarrow> int \<times> pystr list \<Rightarrow> int \<times> pystr list" where
  "bump c n f (score, flags) = (if c then (score + n, flags @ [f]) else (score, flags))"

text \<open>The closing \<^verbatim>\<open>return min(score, 100), flags\<close> of a sub-analysis.\<close>

fun capped :: "int \<times> pystr list \<Rightarrow> int \<times> pystr list" where
  "capped (score, flags) = (min score 100, flags)"

section \<open>Regular expressions of the source\<close>

text \<open>
  A pattern is a predicate on a position of the text: the text before the position
  (reversed, nearest character first) and the text from the position on.
  \<^verbatim>\<open>re.search\<close> asks whether the pattern matches at some position.
\<close>

fun at_some_pos :: "(pystr \<Rightarrow> pystr \<Rightarrow> bool) \<Rightarrow> pystr \<Rightarrow> pystr \<Rightarrow> bool" where
  "at_some_pos P before [] = P before []"
| "at_some_pos P before (c # cs) = (P before (c # cs) \<or> at_some_pos P (c # before) cs)"

definition re_search :: "(pystr \<Rightarrow> pystr \<Rightarrow> bool) \<Rightarrow> pystr \<Rightarrow> bool" where
  "re_search P s = at_some_pos P [] s"

text \<open>\<^verbatim>\<open>$\<close> without MULTILINE: the end of the text, or just before a final newline.\<close>

definition at_end :: "pystr \<Rightarrow> bool" where
  "at_end rest = (rest = [] \<or> rest = [10])"

text \<open>\<^verbatim>\<open>\b\<close>: exactly one of the two neighbouring characters is a word character.\<close>

definition starts_word :: "pystr \<Rightarrow> bool" where
  "starts_word s = (case s of [] \<Rightarrow> False | c # _ \<Rightarrow> is_word c)"

definition word_boundary :: "pystr \<Rightarrow> pystr \<Rightarrow> bool" where
  "word_boundary before rest = (starts_word before \<noteq> starts_word rest)"

section \<open>BotDetector\<close>

subsection \<open>Input and output\<close>

text \<open>
  The profile dictionary. An absent \<^verbatim>\<open>username\<close> or \<^verbatim>\<open>bio\<close> reads as the empty
  text, absent \<^verbatim>\<open>posts\<close> as the empty list and an absent \<^verbatim>\<open>metadata\<close> as the
  dictionary without keys.

  A key of \<^verbatim>\<open>metadata\<close> is absent, or present with the value \<^verbatim>\<open>None\<close> (as the
  service layer passes an unset field), or present with a value of its type.
  \<^verbatim>\<open>d.get(key, default)\<close> gives the default for an absent key only; its result is
  \<open>None\<close> when the key holds \<^verbatim>\<open>None\<close>.
\<close>

datatype 'a entry = Absent | NoneValue | Value 'a

definition dict_get :: "'a entry \<Rightarrow> 'a \<Rightarrow> 'a option" where
  "dict_get e d = (case e of Absent \<Rightarrow> Some d | NoneValue \<Rightarrow> None | Value v \<Rightarrow> Some v)"

text \<open>
  An operand of a comparison with a number or of a division: \<^verbatim>\<open>None\<close> there raises
  TypeError.
\<close>

definition as_int :: "int option \<Rightarrow> py_error + int" where
  "as_int v = (case v of None \<Rightarrow> Inl TypeError | Some i \<Rightarrow> Inr i)"

text \<open>The truth value of an optional flag: \<^verbatim>\<open>None\<close> is false.\<close>

definition is_true :: "bool option \<Rightarrow> bool" where
  "is_true v = (case v of None \<Rightarrow> False | Some b \<Rightarrow> b)"

record bot_metadata =
  bm_followers :: "int entry"
  bm_following :: "int entry"
  bm_posts_count :: "int entry"
  bm_verified :: "bool entry"

record post =
  post_content :: pystr
  post_timestamp :: "pystr option"

record profile =
  pf_username :: pystr
  pf_bio :: pystr
  pf_metadata :: bot_metadata
  pf_posts :: "post list"

text \<open>Truth value of the dictionary: it has a key.\<close>

definition metadata_truthy :: "bot_metadata \<Rightarrow> bool" where
  "metadata_truthy md = (bm_followers md \<noteq> Absent \<or> bm_following md \<noteq> Absent
     \<or> bm_posts_count md \<noteq> Absent \<or> bm_verified md \<noteq> Absent)"

record component_scores =
  cs_username :: int
  cs_bio :: int
  cs_metrics :: int
  cs_content :: int
  cs_temporal :: int

record bot_result =
  br_score :: real
  br_is_bot :: bool
  br_confidence :: real
  br_flags :: "pystr list"
  br_component_scores :: component_scores

subsection \<open>Tables\<close>

definition SPAM_BIO_PHRASES :: "pystr list" where
  "SPAM_BIO_PHRASES = map py
     [''follow back'', ''f4f'', ''follow for follow'', ''dm for promo'',
      ''link in bio'', ''check link'', ''free followers'', ''get followers'',
      ''grow your'', ''make money'', ''work from home'', ''earn $'',
      ''click here'', ''limited time'', ''act now'', ''special offer'']"

definition GENERIC_BIOS :: "pystr list" where
  "GENERIC_BIOS = map py
     [''just here'', ''living life'', ''lover of life'', ''follow me'',
      ''entrepreneur'', ''influencer'', ''content creator'', ''dreamer'']"

subsection \<open>The username patterns\<close>

text \<open>
  The five patterns of \<^verbatim>\<open>BOT_USERNAME_PATTERNS\<close>, searched with IGNORECASE, so
  \<^verbatim>\<open>[a-z]\<close> is any letter. Digit and letter runs are disjoint, hence a bounded
  repetition followed by the other class matches exactly when the whole run has a
  length within the bounds.
\<close>

definition run :: "(nat \<Rightarrow> bool) \<Rightarrow> pystr \<Rightarrow> nat" where
  "run P s = length (takeWhile P s)"

definition after_run :: "(nat \<Rightarrow> bool) \<Rightarrow> pystr \<Rightarrow> pystr" where
  "after_run P s = dropWhile P s"

text \<open>\<^verbatim>\<open>\d{6,}$\<close>\<close>

definition pat_trailing_digits :: "pystr \<Rightarrow> pystr \<Rightarrow> bool" where
  "pat_trailing_digits before rest = (6 \<le> run is_digit rest \<and> at_end (after_run is_digit rest))"

text \<open>\<^verbatim>\<open>^[a-z]{3,5}\d{4,}\<close>\<close>

definition pat_letters_digits :: "pystr \<Rightarrow> pystr \<Rightarrow> bool" where
  "pat_letters_digits before rest =
     (before = [] \<and> 3 \<le> run is_alpha rest \<and> run is_alpha rest \<le> 5
      \<and> 4 \<le> run is_digit (after_run is_alpha rest))"

text \<open>\<^verbatim>\<open>bot$\<close>\<close>

definition pat_bot_suffix :: "pystr \<Rightarrow> pystr \<Rightarrow> bool" where
  "pat_bot_suffix before rest =
     (prefix (py ''bot'') (lower rest) \<and> at_end (drop 3 rest))"

text \<open>\<^verbatim>\<open>^user\d+\<close>\<close>

definition pat_user_digits :: "pystr \<Rightarrow> pystr \<Rightarrow> bool" where
  "pat_user_digits before rest =
     (before = [] \<and> prefix (py ''user'') (lower rest) \<and> 1 \<le> run is_digit (drop 4 rest))"

text \<open>\<^verbatim>\<open>[a-z]{1,3}\d+[a-z]{1,3}\d+\<close>\<close>

definition pat_alternating :: "pystr \<Rightarrow> pystr \<Rightarrow> bool" where
  "pat_alternating before rest =
     (let r1 = after_run is_alpha rest; r2 = after_run is_digit r1; r3 = after_run is_alpha r2 in
      1 \<le> run is_alpha rest \<and> run is_alpha rest \<le> 3 \<and> 1 \<le> run is_digit r1
      \<and> 1 \<le> run is_alpha r2 \<and> run is_alpha r2 \<le> 3 \<and> 1 \<le> run is_digit r3)"

text \<open>Each pattern with its source text, which the flag quotes.\<close>

definition BOT_USERNAME_PATTERNS :: "(pystr \<times> (pystr \<Rightarrow> pystr \<Rightarrow> bool)) list" where
  "BOT_USERNAME_PATTERNS =
     [(92 # py ''d{6,}$'', pat_trailing_digits),
      (py ''^[a-z]{3,5}'' @ 92 # py ''d{4,}'', pat_letters_digits),
      (py ''bot$'', pat_bot_suffix),
      (py ''^user'' @ 92 # py ''d+'', pat_user_digits),
      (py ''[a-z]{1,3}'' @ 92 # py ''d+[a-z]{1,3}'' @ 92 # py ''d+'', pat_alternating)]"

subsection \<open>Username\<close>

definition is_vowel :: "nat \<Rightarrow> bool" where
  "is_vowel c = (c \<in> set (py ''aeiou''))"

definition username_patterns :: "pystr \<Rightarrow> int \<times> pystr list" where
  "username_patterns username =
     foldl (\<lambda>st (txt, pat).
         bump (re_search pat username) 25 (py ''suspicious_username_pattern:'' @ txt) st)
       (0, []) BOT_USERNAME_PATTERNS"

definition username_length :: "pystr \<Rightarrow> int \<times> pystr list \<Rightarrow> int \<times> pystr list" where
  "username_length username st =
     (if length username < 3 then bump True 20 (py ''very_short_username'') st
      else if 25 < length username then bump True 10 (py ''very_long_username'') st
      else st)"

definition analyze_username :: "pystr \<Rightarrow> py_error + (int \<times> pystr list)" where
  "analyze_username username =
     (if username = [] then Inr (50, [])
      else
        let st = username_patterns username;
            st = username_length username st;
            st = bump (\<not> list_ex is_alpha username) 30 (py ''no_letters_in_username'') st;
            vowels = count_if is_vowel (lower username);
            consonants = count_if (\<lambda>c. is_alpha c \<and> \<not> is_vowel c) (lower username)
        in on_ok
             (if 0 < consonants
              then on_ok (py_int_div vowels (max consonants 1))
                     (\<lambda>ratio. Inr (ratio < 1 / 10))
              else Inr False)
             (\<lambda>unusual.
                Inr (capped (bump unusual 15 (py ''unusual_character_distribution'') st))))"

subsection \<open>Bio\<close>

text \<open>
  \<^verbatim>\<open>re.findall(r'https?://', bio)\<close>: the matches are found left to right, the search
  resuming behind each match.
\<close>

fun count_urls :: "pystr \<Rightarrow> nat" where
  "count_urls [] = 0"
| "count_urls (c # cs) =
     (if prefix (py ''https://'') (c # cs) then Suc (count_urls (drop 7 cs))
      else if prefix (py ''http://'') (c # cs) then Suc (count_urls (drop 6 cs))
      else count_urls cs)"

definition analyze_bio :: "pystr \<Rightarrow> int \<times> pystr list" where
  "analyze_bio bio =
     (if bio = [] then (30, [py ''no_bio''])
      else
        let bio_lower = lower bio;
            spam_matches = count_if (\<lambda>phrase. contains phrase bio_lower) SPAM_BIO_PHRASES;
            st = (if 0 < spam_matches
                  then (spam_matches * 20, [py ''spam_phrases:'' @ str_int spam_matches])
                  else (0, []));
            generic_matches = count_if (\<lambda>phrase. contains phrase bio_lower) GENERIC_BIOS;
            st = (if 0 < generic_matches
                  then (fst st + generic_matches * 10, snd st @ [py ''generic_bio''])
                  else st);
            emoji_count = count_if (\<lambda>char. 127462 < char) bio;
            st = bump (10 < emoji_count) 15 (py ''excessive_emojis'') st;
            hashtag_count = count_if (\<lambda>char. char = 35) bio;
            st = bump (5 < hashtag_count) 20 (py ''excessive_hashtags'') st;
            url_count = int (count_urls bio);
            st = bump (2 < url_count) 25 (py ''multiple_urls'') st;
            st = bump (length bio < 10) 15 (py ''very_short_bio'') st
        in capped st)"

subsection \<open>Metrics\<close>

text \<open>
  The ratio step. \<^verbatim>\<open>following\<close> has passed the test \<^verbatim>\<open>following > 0\<close> as a number;
  \<^verbatim>\<open>followers\<close> is first used by the division.
\<close>

definition follower_ratio :: "int option \<Rightarrow> int \<Rightarrow> py_error + (int \<times> pystr list)" where
  "follower_ratio followers n_following =
     (if 0 < n_following
      then on_ok (as_int followers) (\<lambda>n_followers.
             on_ok (py_int_div n_followers n_following)
               (\<lambda>ratio.
                  Inr (if ratio < 1 / 100 then (40, [py ''suspicious_follower_ratio''])
                       else if 100 < ratio \<and> 10000 < n_followers
                       then (10, [py ''extremely_high_follower_ratio''])
                       else (0, []))))
      else Inr (0, []))"

text \<open>
  The tests in the order of the source. Each count is needed as a number where a
  comparison first reads it: \<^verbatim>\<open>following\<close> at \<^verbatim>\<open>following > 0\<close>, \<^verbatim>\<open>followers\<close> at
  the division or at \<^verbatim>\<open>followers > 1000000\<close>, \<^verbatim>\<open>posts_count\<close> at
  \<^verbatim>\<open>posts_count < 10\<close> when the test before it holds, else at \<^verbatim>\<open>posts_count > 100\<close>.
\<close>

definition analyze_metrics :: "bot_metadata \<Rightarrow> py_error + (int \<times> pystr list)" where
  "analyze_metrics md =
     (let followers = dict_get (bm_followers md) 0;
          following = dict_get (bm_following md) 0;
          posts_count = dict_get (bm_posts_count md) 0;
          verified = dict_get (bm_verified md) False
      in if is_true verified then Inr (5, [py ''verified_account''])
         else
           on_ok (as_int following) (\<lambda>n_following.
           on_ok (follower_ratio followers n_following) (\<lambda>st.
           on_ok (as_int followers) (\<lambda>n_followers.
           on_ok (if 1000000 < n_followers
                  then on_ok (as_int posts_count) (\<lambda>n_posts. Inr (n_posts < 10))
                  else Inr False) (\<lambda>unrealistic.
           let st = bump unrealistic 50 (py ''unrealistic_followers_to_posts'') st;
               st = bump (5000 < n_following) 25 (py ''mass_following'') st
           in on_ok (as_int posts_count) (\<lambda>n_posts.
           let st = bump (100 < n_posts \<and> n_followers < 10) 30
                      (py ''high_activity_low_followers'') st;
               st = bump (n_posts = 0 \<and> 100 < n_followers) 35
                      (py ''no_posts_many_followers'') st
           in Inr (capped st)))))))"

subsection \<open>Content\<close>

text \<open>\<^verbatim>\<open>re.findall(r'#\w+', content)\<close>: a hash sign and the word characters after it.\<close>

function hashtags :: "pystr \<Rightarrow> pystr list" where
  "hashtags [] = []"
| "hashtags (c # cs) =
     (if c = 35 \<and> starts_word cs
      then (c # takeWhile is_word cs) # hashtags (dropWhile is_word cs)
      else hashtags cs)"
  by pat_completeness auto
termination
  by (relation "measure length") (auto intro: le_imp_less_Suc length_dropWhile_le)

definition PROMO_PHRASES :: "pystr list" where
  "PROMO_PHRASES = map py [''buy'', ''sale'', ''discount'', ''link'', ''shop'', ''promo'']"

definition hashtag_repetition ::
    "pystr list \<Rightarrow> int \<times> pystr list \<Rightarrow> py_error + (int \<times> pystr list)" where
  "hashtag_repetition all_hashtags st =
     (if 0 < length all_hashtags
      then on_ok (py_int_div (int (length all_hashtags)) (int (length (remdups all_hashtags))))
             (\<lambda>repetition. Inr (bump (5 < repetition) 25 (py ''repetitive_hashtags'') st))
      else Inr st)"

definition analyze_content :: "post list \<Rightarrow> py_error + (int \<times> pystr list)" where
  "analyze_content posts =
     (if posts = [] then Inr (30, [py ''no_posts''])
      else
        let contents = filter (\<lambda>c. c \<noteq> []) (map post_content posts) in
        if contents = [] then Inr (30, [py ''empty_posts''])
        else
          let st = bump (real (length (remdups contents)) < real (length contents) * (1 / 2)) 40
                     (py ''high_content_duplication'') (0, []);
              all_hashtags = concat (map hashtags contents)
          in on_ok (hashtag_repetition all_hashtags st)
               (\<lambda>st.
                  on_ok (py_int_div (int (sum_list (map length contents))) (int (length contents)))
                    (\<lambda>avg_length.
                       let st = bump (avg_length < 20) 20 (py ''very_short_posts'') st;
                           promo_count =
                             count_if (\<lambda>c. list_ex (\<lambda>phrase. contains phrase (lower c))
                                               PROMO_PHRASES) contents;
                           st = bump (real (length contents) * (1 / 2) < of_int promo_count) 35
                                  (py ''high_promotional_content'') st
                       in Inr (capped st))))"

subsection \<open>Temporal\<close>

text \<open>
  A parsed timestamp: its place on the time line in microseconds, the hour field, and
  whether it carries a UTC offset. \<^verbatim>\<open>datetime.fromisoformat\<close> belongs to the
  standard library; the analysis takes it as a parameter that answers \<open>None\<close> where
  the library raises.
\<close>

record pydatetime =
  dt_micros :: int
  dt_hour :: nat
  dt_aware :: bool

text \<open>\<^verbatim>\<open>ts.replace('Z', '+00:00')\<close>\<close>

definition replace_Z :: "pystr \<Rightarrow> pystr" where
  "replace_Z ts = concat (map (\<lambda>c. if c = 90 then py ''+00:00'' else [c]) ts)"

definition extract_timestamps ::
    "(pystr \<Rightarrow> pydatetime option) \<Rightarrow> post list \<Rightarrow> pydatetime list" where
  "extract_timestamps fromisoformat posts =
     concat (map (\<lambda>p.
        case post_timestamp p of
          None \<Rightarrow> []
        | Some ts \<Rightarrow>
            if ts = [] then []
            else (case fromisoformat (replace_Z ts) of None \<Rightarrow> [] | Some d \<Rightarrow> [d])) posts)"

text \<open>
  \<^verbatim>\<open>timestamps.sort()\<close>: comparing a timestamp with an offset to one without raises
  TypeError; otherwise the order is that of the time line.
\<close>

definition mixed_offsets :: "pydatetime list \<Rightarrow> bool" where
  "mixed_offsets ts = (list_ex dt_aware ts \<and> list_ex (\<lambda>d. \<not> dt_aware d) ts)"

definition sort_timestamps :: "pydatetime list \<Rightarrow> py_error + pydatetime list" where
  "sort_timestamps ts =
     (if mixed_offsets ts then Inl TypeError else Inr (sort_key dt_micros ts))"

text \<open>The differences of neighbours, \<^verbatim>\<open>total_seconds()\<close> each.\<close>

fun intervals :: "pydatetime list \<Rightarrow> real list" where
  "intervals (a # b # rest) =
     (of_int (dt_micros b - dt_micros a) / 1000000) # intervals (b # rest)"
| "intervals [a] = []"
| "intervals [] = []"

text \<open>
  \<^verbatim>\<open>np.mean\<close> and \<^verbatim>\<open>np.std\<close> (the population standard deviation). Their division by
  the number of elements is treated as one that can fail.
\<close>

text \<open>
  The square root stays symbolic under evaluation: the equation that defines the real
  root through an inverse is not a program.
\<close>

declare root_def [code del]

definition np_mean :: "real list \<Rightarrow> py_error + real" where
  "np_mean xs = py_div (sum_list xs) (real (length xs))"

definition np_std :: "real list \<Rightarrow> py_error + real" where
  "np_std xs =
     on_ok (np_mean xs) (\<lambda>m. on_ok (np_mean (map (\<lambda>x. (x - m)\<^sup>2) xs)) (\<lambda>v. Inr (sqrt v)))"

definition regular_posting :: "real \<Rightarrow> real \<Rightarrow> py_error + bool" where
  "regular_posting avg_interval std_interval =
     (if 0 < avg_interval
      then on_ok (py_div std_interval avg_interval) (\<lambda>r. Inr (r < 1 / 10))
      else Inr False)"

definition analyze_temporal ::
    "(pystr \<Rightarrow> pydatetime option) \<Rightarrow> post list \<Rightarrow> py_error + (int \<times> pystr list)" where
  "analyze_temporal fromisoformat posts =
     (if posts = [] \<or> length posts < 3 then Inr (30, [py ''insufficient_temporal_data''])
      else
        let timestamps = extract_timestamps fromisoformat posts in
        if length timestamps < 3 then Inr (30, [py ''insufficient_temporal_data''])
        else on_ok (sort_timestamps timestamps)
          (\<lambda>timestamps.
             let ivs = intervals timestamps in
             if ivs = [] then Inr (30, [])
             else on_ok (np_mean ivs)
               (\<lambda>avg_interval. on_ok (np_std ivs)
                  (\<lambda>std_interval. on_ok (regular_posting avg_interval std_interval)
                     (\<lambda>regular.
                        let st = bump regular 50 (py ''suspiciously_regular_posting'') (0, []);
                            short_intervals = count_if (\<lambda>i. i < 60) ivs;
                            st = bump (real (length ivs) * (3 / 10) < of_int short_intervals) 35
                                   (py ''burst_posting_pattern'') st;
                            unique_hours = length (remdups (map dt_hour timestamps));
                            st = bump (20 < length timestamps \<and> 20 < unique_hours) 30
                                   (py ''no_sleep_pattern'') st
                        in Inr (capped st))))))"

subsection \<open>Confidence and the combined result\<close>

definition bot_confidence :: "profile \<Rightarrow> real" where
  "bot_confidence profile_data =
     (let c = 1 / 2;
          c = (if pf_bio profile_data \<noteq> [] then c + 1 / 10 else c);
          c = (if metadata_truthy (pf_metadata profile_data) then c + 15 / 100 else c);
          posts = pf_posts profile_data;
          c = (if posts \<noteq> []
               then (if 10 < length posts then c + 2 / 10
                     else if 3 < length posts then c + 1 / 10 else c)
               else c)
      in min (py_round c 2) 1)"

text \<open>
  \<^verbatim>\<open>BotDetector.analyze\<close>. The flags are returned as \<^verbatim>\<open>list(set(flags))\<close>, whose
  order Python leaves open; here the first occurrences are kept in order.
\<close>

definition final_score :: "int \<Rightarrow> int \<Rightarrow> int \<Rightarrow> int \<Rightarrow> int \<Rightarrow> real" where
  "final_score u b m c t =
     of_int u * (15 / 100) + of_int b * (15 / 100) + of_int m * (25 / 100)
       + of_int c * (25 / 100) + of_int t * (20 / 100)"

definition BotDetector_analyze ::
    "(pystr \<Rightarrow> pydatetime option) \<Rightarrow> profile \<Rightarrow> py_error + bot_result" where
  "BotDetector_analyze fromisoformat profile_data =
     on_ok (analyze_username (pf_username profile_data)) (\<lambda>(username_score, username_flags).
       case analyze_bio (pf_bio profile_data) of (bio_score, bio_flags) \<Rightarrow>
       on_ok (analyze_metrics (pf_metadata profile_data)) (\<lambda>(metrics_score, metrics_flags).
       on_ok (analyze_content (pf_posts profile_data)) (\<lambda>(content_score, content_flags).
       on_ok (analyze_temporal fromisoformat (pf_posts profile_data))
         (\<lambda>(temporal_score, temporal_flags).
            let total = final_score username_score bio_score metrics_score content_score
                          temporal_score
            in Inr \<lparr> br_score = py_round total 1,
                     br_is_bot = (50 < total),
                     br_confidence = bot_confidence profile_data,
                     br_flags = remdups (username_flags @ bio_flags @ metrics_flags
                                  @ content_flags @ temporal_flags),
                     br_component_scores =
                       \<lparr> cs_username = username_score, cs_bio = bio_score,
                         cs_metrics = metrics_score, cs_content = content_score,
                         cs_temporal = temporal_score \<rparr> \<rparr>))))"

section \<open>SentimentAnalyzer\<close>

subsection \<open>Tables\<close>

definition POSITIVE_WORDS :: "(pystr \<times> real) list" where
  "POSITIVE_WORDS = map (\<lambda>(w, v). (py w, v))
     [(''amazing'', 9 / 10), (''excellent'', 9 / 10), (''outstanding'', 9 / 10),
      (''incredible'', 9 / 10), (''fantastic'', 9 / 10), (''wonderful'', 9 / 10),
      (''brilliant'', 9 / 10), (''exceptional'', 9 / 10),
      (''great'', 7 / 10), (''good'', 6 / 10), (''nice'', 5 / 10), (''happy'', 7 / 10),
      (''love'', 8 / 10), (''awesome'', 8 / 10), (''beautiful'', 7 / 10),
      (''perfect'', 9 / 10), (''best'', 8 / 10), (''excited'', 7 / 10),
      (''grateful'', 7 / 10), (''blessed'', 6 / 10), (''thrilled'', 8 / 10),
      (''enjoy'', 6 / 10), (''appreciate'', 6 / 10), (''thankful'', 7 / 10),
      (''proud'', 7 / 10), (''successful'', 7 / 10), (''positive'', 6 / 10),
      (''inspiring'', 7 / 10), (''motivated'', 6 / 10),
      (''like'', 4 / 10), (''okay'', 2 / 10), (''fine'', 3 / 10), (''cool'', 5 / 10),
      (''interesting'', 4 / 10), (''helpful'', 5 / 10), (''useful'', 5 / 10),
      (''recommend'', 6 / 10), (''thanks'', 5 / 10)]"

definition NEGATIVE_WORDS :: "(pystr \<times> real) list" where
  "NEGATIVE_WORDS = map (\<lambda>(w, v). (py w, v))
     [(''terrible'', - (9 / 10)), (''horrible'', - (9 / 10)), (''awful'', - (9 / 10)),
      (''worst'', - (9 / 10)), (''disgusting'', - (9 / 10)), (''hate'', - (8 / 10)),
      (''disaster'', - (8 / 10)), (''pathetic'', - (8 / 10)),
      (''bad'', - (6 / 10)), (''poor'', - (5 / 10)), (''disappointing'', - (7 / 10)),
      (''upset'', - (6 / 10)), (''angry'', - (7 / 10)), (''frustrated'', - (6 / 10)),
      (''annoyed'', - (5 / 10)), (''sad'', - (6 / 10)), (''boring'', - (5 / 10)),
      (''waste'', - (6 / 10)), (''stupid'', - (7 / 10)), (''useless'', - (7 / 10)),
      (''wrong'', - (5 / 10)), (''failed'', - (6 / 10)), (''broken'', - (5 / 10)),
      (''problem'', - (4 / 10)),
      (''dislike'', - (4 / 10)), (''meh'', - (2 / 10)), (''mediocre'', - (3 / 10)),
      (''issue'', - (3 / 10)), (''difficult'', - (3 / 10)), (''confusing'', - (4 / 10)),
      (''worried'', - (4 / 10))]"

definition INTENSIFIERS :: "(pystr \<times> real) list" where
  "INTENSIFIERS = map (\<lambda>(w, v). (py w, v))
     [(''very'', 15 / 10), (''really'', 14 / 10), (''extremely'', 17 / 10),
      (''absolutely'', 18 / 10), (''totally'', 15 / 10), (''completely'', 16 / 10),
      (''incredibly'', 17 / 10), (''super'', 14 / 10), (''so'', 13 / 10),
      (''quite'', 12 / 10), (''pretty'', 12 / 10), (''highly'', 14 / 10)]"

definition NEGATORS :: "pystr list" where
  "NEGATORS = map py
     [''not'', ''n'' @ [CHR 0x27] @ ''t'', ''no'', ''never'', ''none'', ''nothing'',
      ''neither'', ''nowhere'']"

text \<open>
  The three character classes of \<^verbatim>\<open>EMOJI_PATTERNS\<close>, by code point. The heart and
  the frowning face are written with the variation selector U+FE0F, which therefore
  belongs to the positive and to the negative class.
\<close>

definition EMOJI_POSITIVE :: "nat list" where
  "EMOJI_POSITIVE =
     [128512, 128515, 128516, 128513, 128518, 128517, 129315, 128514, 128578, 128579,
      128521, 128522, 128519, 129392, 128525, 129321, 128536, 128535, 9786, 128538,
      128537, 129394, 128523, 128539, 128540, 129322, 128541, 128077, 128079, 127881,
      10084, 65039, 128149, 128150, 128151, 128153, 128154, 128155, 129505, 128156,
      129294, 128420, 129293, 128175, 10024, 127775, 11088, 128293, 128170]"

definition EMOJI_NEGATIVE :: "nat list" where
  "EMOJI_NEGATIVE =
     [128542, 128532, 128543, 128533, 128577, 9785, 65039, 128547, 128534, 128555,
      128553, 129402, 128546, 128557, 128548, 128544, 128545, 129324, 128520, 128127,
      128128, 128078, 128148, 128560, 128552, 128561]"

definition EMOJI_NEUTRAL :: "nat list" where
  "EMOJI_NEUTRAL =
     [128528, 128529, 128566, 129300, 129320, 129488, 128527, 128580, 128556, 129317]"

subsection \<open>Text helpers\<close>

text \<open>\<^verbatim>\<open>re.findall(r'\b\w+\b', s)\<close>: the maximal runs of word characters.\<close>

function words_of :: "pystr \<Rightarrow> pystr list" where
  "words_of [] = []"
| "words_of (c # cs) =
     (if is_word c then (c # takeWhile is_word cs) # words_of (dropWhile is_word cs)
      else words_of cs)"
  by pat_completeness auto
termination
  by (relation "measure length") (auto intro: le_imp_less_Suc length_dropWhile_le)

text \<open>\<^verbatim>\<open>s.split()\<close>: the maximal runs of characters that are not whitespace.\<close>

function split_ws :: "pystr \<Rightarrow> pystr list" where
  "split_ws [] = []"
| "split_ws (c # cs) =
     (if is_space c then split_ws cs
      else (c # takeWhile (\<lambda>x. \<not> is_space x) cs) # split_ws (dropWhile (\<lambda>x. \<not> is_space x) cs))"
  by pat_completeness auto
termination
  by (relation "measure length") (auto intro: le_imp_less_Suc length_dropWhile_le)

text \<open>\<^verbatim>\<open>s.strip()\<close>\<close>

definition strip :: "pystr \<Rightarrow> pystr" where
  "strip s = rev (dropWhile is_space (rev (dropWhile is_space s)))"

text \<open>\<^verbatim>\<open>w.isupper()\<close>: a cased character exists and none is lower case.\<close>

definition isupper :: "pystr \<Rightarrow> bool" where
  "isupper w = (list_ex is_upper w \<and> \<not> list_ex is_lower w)"

text \<open>
  A pattern \<^verbatim>\<open>\b(l1|l2|...)\b\<close> of literal alternatives: some literal stands at
  the position, with a word boundary before and behind it.
\<close>

definition pat_literals :: "pystr list \<Rightarrow> pystr \<Rightarrow> pystr \<Rightarrow> bool" where
  "pat_literals lits before rest =
     (word_boundary before rest
      \<and> list_ex (\<lambda>l. prefix l rest \<and> word_boundary (rev l @ before) (drop (length l) rest)) lits)"

subsection \<open>Lexicon signal\<close>

text \<open>
  The loop over the words, with the word before the current one (\<open>None\<close> at the first
  word). A word found in a table contributes one score.
\<close>

definition word_score :: "pystr option \<Rightarrow> pystr \<Rightarrow> real list" where
  "word_score prev w =
     (let negated = (case prev of None \<Rightarrow> False
                     | Some pw \<Rightarrow> list_ex (\<lambda>neg. contains neg pw) NEGATORS);
          intensity = (case prev of None \<Rightarrow> 1
                       | Some pw \<Rightarrow> (case map_of INTENSIFIERS pw of None \<Rightarrow> 1 | Some v \<Rightarrow> v))
      in case map_of POSITIVE_WORDS w of
           Some v \<Rightarrow> [let s = v * intensity in if negated then - s * (1 / 2) else s]
         | None \<Rightarrow>
             (case map_of NEGATIVE_WORDS w of
                Some v \<Rightarrow> [let s = v * intensity in if negated then - s * (1 / 2) else s]
              | None \<Rightarrow> []))"

fun lexicon_scores :: "pystr option \<Rightarrow> pystr list \<Rightarrow> real list" where
  "lexicon_scores prev [] = []"
| "lexicon_scores prev (w # ws) = word_score prev w @ lexicon_scores (Some w) ws"

text \<open>The divisor is at least the number of scores, which is positive where it is used.\<close>

definition lexicon_analysis :: "pystr \<Rightarrow> real option" where
  "lexicon_analysis text =
     (let ws = words_of (lower text) in
      if ws = [] then None
      else
        let scores = lexicon_scores None ws in
        if scores = [] then Some 0
        else Some (sum_list scores / max (real (length scores)) (real (length ws) / 5)))"

subsection \<open>Emoji signal\<close>

definition emoji_analysis :: "pystr \<Rightarrow> real option" where
  "emoji_analysis text =
     (let positive_count = count_if (\<lambda>c. c \<in> set EMOJI_POSITIVE) text;
          negative_count = count_if (\<lambda>c. c \<in> set EMOJI_NEGATIVE) text;
          neutral_count = count_if (\<lambda>c. c \<in> set EMOJI_NEUTRAL) text;
          total = positive_count + negative_count + neutral_count
      in if total = 0 then None
         else
           let s = (of_int positive_count * (8 / 10) - of_int negative_count * (8 / 10))
                     / of_int total
           in Some (max (- 1) (min 1 s)))"

subsection \<open>Pattern signal\<close>

definition positive_patterns :: "pystr list list" where
  "positive_patterns = map (map py)
     [[''lol'', ''lmao'', ''haha'', ''hehe''],
      [''thanks'', ''thankyou'', ''thank''],
      [''congrats'', ''congratulations'', ''congrat''],
      [''well done''],
      [''good job'', ''good work'']]"

definition negative_patterns :: "pystr list list" where
  "negative_patterns = map (map py)
     [[''ugh'', ''ew'', ''yuck''],
      [''unfortunately''],
      [''waste of''],
      [''can'' @ [CHR 0x27] @ ''t stand'', ''cannot stand'']]"

text \<open>The running pair is the score and the number of indicators.\<close>

definition pattern_analysis :: "pystr \<Rightarrow> real option" where
  "pattern_analysis text =
     (let text_lower = lower text;
          exclamation_count = count_if (\<lambda>c. c = 33) text;
          (s, indicators) =
            (if 0 < exclamation_count
             then (min (of_int exclamation_count * (5 / 100)) (2 / 10), 1)
             else (0, 0::int));
          question_count = count_if (\<lambda>c. c = 63) text;
          (s, indicators) =
            (if 0 < question_count
             then (s - min (of_int question_count * (2 / 100)) (1 / 10), indicators + 1)
             else (s, indicators));
          ws = split_ws text;
          caps_words = count_if (\<lambda>w. isupper w \<and> 2 < length w) ws;
          (s, indicators) =
            (if 0 < caps_words
             then (s + (1 / 10) * (of_int caps_words / real (max (length ws) 1)), indicators + 1)
             else (s, indicators));
          (s, indicators) =
            foldl (\<lambda>(s, indicators) pattern.
                if re_search (pat_literals pattern) text_lower
                then (s + 2 / 10, indicators + 1) else (s, indicators))
              (s, indicators) positive_patterns;
          (s, indicators) =
            foldl (\<lambda>(s, indicators) pattern.
                if re_search (pat_literals pattern) text_lower
                then (s - 2 / 10, indicators + 1) else (s, indicators))
              (s, indicators) negative_patterns
      in if indicators = 0 then None else Some (max (- 1) (min 1 s)))"

subsection \<open>Confidence and the combined result\<close>

definition agreeing :: "real list \<Rightarrow> bool" where
  "agreeing scores_only =
     (list_all (\<lambda>s. 0 < s) (filter (\<lambda>s. s \<noteq> 0) scores_only)
      \<or> list_all (\<lambda>s. s < 0) (filter (\<lambda>s. s \<noteq> 0) scores_only))"

definition sentiment_confidence :: "pystr \<Rightarrow> (real \<times> real) list \<Rightarrow> real" where
  "sentiment_confidence text valid_scores =
     (let c = 1 / 2;
          word_count = length (split_ws text);
          c = (if 50 < word_count then c + 2 / 10
               else if 20 < word_count then c + 1 / 10
               else if word_count < 5 then c - 1 / 10 else c);
          signal_count = length valid_scores;
          c = c + real signal_count * (1 / 10);
          c = (if 2 \<le> length valid_scores \<and> agreeing (map fst valid_scores)
               then c + 15 / 100 else c)
      in min (max c (1 / 10)) 1)"

record breakdown =
  bd_lexicon :: real
  bd_emoji :: real
  bd_pattern :: real

record sentiment_result =
  sr_overall :: real
  sr_confidence :: real
  sr_label :: pystr
  sr_breakdown :: "breakdown option"

text \<open>\<^verbatim>\<open>round(s, 3) if s else 0\<close> on an optional signal.\<close>

definition rounded_or_zero :: "real option \<Rightarrow> real" where
  "rounded_or_zero s = (case s of None \<Rightarrow> 0 | Some v \<Rightarrow> if v = 0 then 0 else py_round v 3)"

definition valid_signals :: "(real option \<times> real) list \<Rightarrow> (real \<times> real) list" where
  "valid_signals scores =
     concat (map (\<lambda>(s, w). case s of None \<Rightarrow> [] | Some v \<Rightarrow> [(v, w)]) scores)"

definition combine :: "(real \<times> real) list \<Rightarrow> real" where
  "combine valid_scores =
     (if valid_scores = [] then 0
      else sum_list (map (\<lambda>(s, w). s * w) valid_scores) / sum_list (map snd valid_scores))"

definition SentimentAnalyzer_analyze :: "pystr \<Rightarrow> sentiment_result" where
  "SentimentAnalyzer_analyze text0 =
     (if text0 = [] \<or> strip text0 = []
      then \<lparr> sr_overall = 0, sr_confidence = 0, sr_label = py ''neutral'', sr_breakdown = None \<rparr>
      else
        let text = strip text0;
            lexicon_score = lexicon_analysis text;
            emoji_score = emoji_analysis text;
            pattern_score = pattern_analysis text;
            valid_scores = valid_signals
              [(lexicon_score, 1 / 2), (emoji_score, 1 / 4), (pattern_score, 1 / 4)];
            overall = combine valid_scores;
            c = sentiment_confidence text valid_scores;
            label = (if 2 / 10 < overall then py ''positive''
                     else if overall < - (2 / 10) then py ''negative''
                     else py ''neutral'')
        in \<lparr> sr_overall = py_round overall 3,
             sr_confidence = py_round c 3,
             sr_label = label,
             sr_breakdown = Some \<lparr> bd_lexicon = rounded_or_zero lexicon_score,
                                   bd_emoji = rounded_or_zero emoji_score,
                                   bd_pattern = rounded_or_zero pattern_score \<rparr> \<rparr>)"

section \<open>InterestExtractor\<close>

definition INTEREST_CATEGORIES :: "(pystr \<times> pystr list) list" where
  "INTEREST_CATEGORIES = map (\<lambda>(c, ks). (py c, map py ks))
     [(''technology'',
        [''tech'', ''coding'', ''programming'', ''developer'', ''software'', ''hardware'',
         ''ai'', ''artificial intelligence'', ''machine learning'', ''ml'', ''data science'',
         ''blockchain'', ''crypto'', ''web3'', ''nft'', ''startup'', ''saas'', ''api'',
         ''javascript'', ''python'', ''react'', ''node'', ''ios'', ''android'', ''app'',
         ''cloud'', ''devops'', ''cybersecurity'', ''hacking'', ''opensource'']),
      (''business'',
        [''entrepreneur'', ''entrepreneurship'', ''startup'', ''founder'', ''ceo'', ''cto'',
         ''business'', ''marketing'', ''sales'', ''growth'', ''revenue'', ''investment'',
         ''venture'', ''vc'', ''funding'', ''money'', ''finance'', ''fintech'', ''banking'',
         ''stocks'', ''trading'', ''real estate'', ''consulting'', ''strategy'']),
      (''creative'',
        [''design'', ''designer'', ''art'', ''artist'', ''creative'', ''photography'',
         ''photo'', ''video'', ''film'', ''music'', ''musician'', ''producer'', ''dj'',
         ''writing'', ''writer'', ''author'', ''content'', ''creator'', ''influencer'',
         ''fashion'', ''style'', ''aesthetic'', ''visual'', ''graphic'', ''ui'', ''ux'']),
      (''sports'',
        [''fitness'', ''gym'', ''workout'', ''training'', ''sports'', ''athlete'',
         ''running'', ''marathon'', ''cycling'', ''swimming'', ''yoga'', ''meditation'',
         ''football'', ''soccer'', ''basketball'', ''baseball'', ''tennis'', ''golf'',
         ''crossfit'', ''bodybuilding'', ''weightlifting'', ''hiking'', ''climbing'']),
      (''entertainment'',
        [''gaming'', ''gamer'', ''esports'', ''twitch'', ''streaming'', ''youtube'',
         ''movies'', ''film'', ''tv'', ''netflix'', ''anime'', ''manga'', ''comics'',
         ''music'', ''concerts'', ''festivals'', ''podcast'', ''comedy'', ''memes'']),
      (''lifestyle'',
        [''travel'', ''adventure'', ''wanderlust'', ''backpacking'', ''foodie'', ''food'',
         ''cooking'', ''chef'', ''wine'', ''coffee'', ''wellness'', ''health'', ''vegan'',
         ''sustainable'', ''minimalist'', ''luxury'', ''lifestyle'', ''parenting'', ''family'']),
      (''education'',
        [''learning'', ''education'', ''teacher'', ''professor'', ''student'', ''university'',
         ''research'', ''science'', ''physics'', ''chemistry'', ''biology'', ''math'',
         ''history'', ''philosophy'', ''psychology'', ''sociology'', ''economics'']),
      (''social'',
        [''activism'', ''social'', ''community'', ''nonprofit'', ''charity'', ''volunteer'',
         ''politics'', ''environment'', ''climate'', ''sustainability'', ''diversity'',
         ''inclusion'', ''equality'', ''justice'', ''human rights'', ''mental health''])]"

text \<open>
  The reverse lookup built by \<^verbatim>\<open>__init__\<close>: the categories in order, each keyword
  assigned in turn, so a keyword of two categories ends with the later one.
\<close>

definition keyword_to_category :: "pystr \<rightharpoonup> pystr" where
  "keyword_to_category =
     fold (\<lambda>(category, keywords) m. fold (\<lambda>keyword m. m(lower keyword \<mapsto> category)) keywords m)
       INTEREST_CATEGORIES Map.empty"

definition get_category :: "pystr \<Rightarrow> pystr" where
  "get_category interest = get_or (keyword_to_category (lower interest)) (py ''general'')"

text \<open>
  Python sets are kept as lists without repetition; \<^verbatim>\<open>list(s)\<close> and the iteration
  over a set follow that list, where Python leaves the order open.
\<close>

definition py_set :: "'a list \<Rightarrow> 'a list" where
  "py_set xs = remdups xs"

definition set_and :: "'a list \<Rightarrow> 'a list \<Rightarrow> 'a list" where
  "set_and xs ys = filter (\<lambda>x. x \<in> set ys) xs"

definition category_marker :: "pystr \<Rightarrow> pystr" where
  "category_marker cat = py ''['' @ cat @ py '']''"

definition find_common_interests :: "pystr list \<Rightarrow> pystr list \<Rightarrow> pystr list" where
  "find_common_interests interests1 interests2 =
     (let set1 = py_set (map lower interests1);
          set2 = py_set (map lower interests2);
          common = set_and set1 set2;
          categories1 = py_set (map get_category interests1);
          categories2 = py_set (map get_category interests2)
      in common @ map category_marker
           (filter (\<lambda>cat. cat \<noteq> py ''general'') (set_and categories1 categories2)))"

section \<open>ProfileScorer\<close>

text \<open>
  The input dictionary: \<^verbatim>\<open>bot_score\<close> (default 50), \<^verbatim>\<open>metadata\<close>, \<^verbatim>\<open>interests\<close>,
  \<^verbatim>\<open>target_interests\<close> and the \<^verbatim>\<open>overall\<close> entry of \<^verbatim>\<open>sentiment\<close> (default 0).
  The metadata as the scorer is given it: each key absent, or present with a value of
  its type.
\<close>

record metadata =
  md_followers :: "int option"
  md_following :: "int option"
  md_posts_count :: "int option"
  md_verified :: "bool option"

record scorer_input =
  si_bot_score :: "real option"
  si_metadata :: metadata
  si_interests :: "pystr list"
  si_target_interests :: "pystr list"
  si_sentiment_overall :: "real option"

record quality_components =
  qc_authenticity :: real
  qc_engagement :: real
  qc_relevance :: real
  qc_accessibility :: real

record quality_score =
  qs_overall :: real
  qs_components :: quality_components
  qs_recommendation :: pystr
  qs_recommendation_text :: pystr
  qs_tier :: pystr

text \<open>The ratio is computed under the test \<^verbatim>\<open>following > 0\<close> only.\<close>

definition calculate_engagement_score :: "metadata \<Rightarrow> real" where
  "calculate_engagement_score md =
     (let s = (50::int);
          n_followers = get_or (md_followers md) 0;
          n_following = get_or (md_following md) 0;
          n_posts = get_or (md_posts_count md) 0;
          is_verified = get_or (md_verified md) False;
          s = (if is_verified then s + 20 else s);
          s = (if 10000 < n_followers then s + 15
               else if 1000 < n_followers then s + 10
               else if 100 < n_followers then s + 5
               else if n_followers < 10 then s - 10 else s);
          s = (if 0 < n_following
               then (let ratio = real_of_int n_followers / real_of_int n_following in
                     if 2 < ratio then s + 15
                     else if 1 < ratio then s + 10
                     else if ratio < 1 / 10 then s - 15 else s)
               else s);
          s = (if 100 < n_posts then s + 10
               else if 20 < n_posts then s + 5
               else if n_posts < 5 then s - 10 else s)
      in of_int (max 0 (min 100 s)))"

definition calculate_relevance_score :: "pystr list \<Rightarrow> pystr list \<Rightarrow> real" where
  "calculate_relevance_score profile_interests target_interests =
     (if profile_interests = [] then 30
      else if target_interests = [] then 50
      else
        let profile_set = py_set (map lower profile_interests);
            target_set = py_set (map lower target_interests);
            matches = set_and profile_set target_set;
            s = 30 + int (length matches) * 15;
            partial = count_if (\<lambda>(p_interest, t_interest).
                          contains p_interest t_interest \<or> contains t_interest p_interest)
                        (List.product profile_set target_set);
            s = s + partial * 5
        in of_int (max 0 (min 100 s)))"

definition calculate_accessibility_score :: "metadata \<Rightarrow> real option \<Rightarrow> real" where
  "calculate_accessibility_score md sentiment_overall =
     (let s = (50::int);
          overall_sentiment = get_or sentiment_overall 0;
          s = (if 3 / 10 < overall_sentiment then s + 20
               else if 0 < overall_sentiment then s + 10
               else if overall_sentiment < - (3 / 10) then s - 15 else s);
          s = (if get_or (md_verified md) False then s - 10 else s);
          n_followers = get_or (md_followers md) 0;
          s = (if 100000 < n_followers then s - 20
               else if 10000 < n_followers then s - 10
               else if n_followers < 100 then s + 10 else s);
          n_posts = get_or (md_posts_count md) 0;
          s = (if 50 < n_posts then s + 10
               else if n_posts < 5 then s - 10 else s)
      in of_int (max 0 (min 100 s)))"

definition get_tier :: "real \<Rightarrow> pystr" where
  "get_tier s =
     (if 80 \<le> s then py ''S''
      else if 65 \<le> s then py ''A''
      else if 50 \<le> s then py ''B''
      else if 35 \<le> s then py ''C''
      else py ''D'')"

definition ProfileScorer_score :: "scorer_input \<Rightarrow> quality_score" where
  "ProfileScorer_score profile_data =
     (let bot_score = get_or (si_bot_score profile_data) 50;
          authenticity = max 0 (100 - bot_score);
          md = si_metadata profile_data;
          engagement = calculate_engagement_score md;
          relevance = calculate_relevance_score (si_interests profile_data)
                        (si_target_interests profile_data);
          accessibility = calculate_accessibility_score md (si_sentiment_overall profile_data);
          overall = authenticity * (30 / 100) + engagement * (25 / 100)
                      + relevance * (25 / 100) + accessibility * (20 / 100);
          (recommendation, recommendation_text) =
            (if 75 \<le> overall
             then (py ''high_priority'', py ''Excellent target - prioritize outreach'')
             else if 50 \<le> overall
             then (py ''good_target'', py ''Good target - include in campaign'')
             else if 30 \<le> overall
             then (py ''consider'', py ''Moderate target - consider for larger campaigns'')
             else (py ''skip'', py ''Low quality target - skip or deprioritize''))
      in \<lparr> qs_overall = py_round overall 1,
           qs_components = \<lparr> qc_authenticity = py_round authenticity 1,
                              qc_engagement = py_round engagement 1,
                              qc_relevance = py_round relevance 1,
                              qc_accessibility = py_round accessibility 1 \<rparr>,
           qs_recommendation = recommendation,
           qs_recommendation_text = recommendation_text,
           qs_tier = get_tier overall \<rparr>)"

text \<open>
  \<^verbatim>\<open>list.sort(key=k, reverse=True)\<close>: descending by key, and stable, elements of
  equal key keeping their order.
\<close>

definition sort_descending :: "('a \<Rightarrow> real) \<Rightarrow> 'a list \<Rightarrow> 'a list" where
  "sort_descending k xs = sort_key (\<lambda>x. - k x) xs"

text \<open>Each profile with its \<^verbatim>\<open>quality_score\<close> entry added.\<close>

definition rank_profiles :: "scorer_input list \<Rightarrow> (scorer_input \<times> quality_score) list" where
  "rank_profiles profiles =
     (let scored = map (\<lambda>profile. (profile, ProfileScorer_score profile)) profiles
      in sort_descending (\<lambda>x. qs_overall (snd x)) scored)"

text \<open>
  Scenario D of the specification: the profile with an empty bio, ten followers, five
  thousand followed accounts and no posts; its bot score is the one BotDetector computes.
\<close>

definition scenario_D_metadata :: metadata where
  "scenario_D_metadata =
     \<lparr> md_followers = Some 10, md_following = Some 5000,
       md_posts_count = None, md_verified = None \<rparr>"

definition scenario_D_profile :: profile where
  "scenario_D_profile =
     \<lparr> pf_username = [], pf_bio = [],
       pf_metadata = \<lparr> bm_followers = Value 10, bm_following = Value 5000,
                       bm_posts_count = Absent, bm_verified = Absent \<rparr>,
       pf_posts = [] \<rparr>"

definition scenario_D_input :: "real \<Rightarrow> scorer_input" where
  "scenario_D_input bot_score =
     \<lparr> si_bot_score = Some bot_score, si_metadata = scenario_D_metadata,
       si_interests = [], si_target_interests = [], si_sentiment_overall = None \<rparr>"

text \<open>A parser that accepts no text, for profiles without timestamps.\<close>

definition reject_all :: "pystr \<Rightarrow> pydatetime option" where
  "reject_all ts = None"

text \<open>BotDetector first, then ProfileScorer on the score it reports.\<close>

definition scenario_D_quality :: "(pystr \<Rightarrow> pydatetime option) \<Rightarrow> py_error + quality_score" where
  "scenario_D_quality fromisoformat =
     on_ok (BotDetector_analyze fromisoformat scenario_D_profile)
       (\<lambda>r. Inr (ProfileScorer_score (scenario_D_input (br_score r))))"

text \<open>
  A profile with a suspicious username, a spam bio, lopsided counts and three equal
  promotional posts one hour apart, and a parser for the timestamps of the examples.
\<close>

definition hourly_parser :: "pystr \<Rightarrow> pydatetime option" where
  "hourly_parser ts =
     (if ts = py ''2024-01-01T09:00:00''
      then Some \<lparr> dt_micros = 32400000000, dt_hour = 9, dt_aware = False \<rparr>
      else if ts = py ''2024-01-01T10:00:00''
      then Some \<lparr> dt_micros = 36000000000, dt_hour = 10, dt_aware = False \<rparr>
      else if ts = py ''2024-01-01T11:00:00''
      then Some \<lparr> dt_micros = 39600000000, dt_hour = 11, dt_aware = False \<rparr>
      else if ts = py ''2024-01-01T09:00:00+00:00''
      then Some \<lparr> dt_micros = 32400000000, dt_hour = 9, dt_aware = True \<rparr>
      else None)"

definition hourly_posts :: "post list" where
  "hourly_posts =
     [\<lparr> post_content = py ''buy'', post_timestamp = Some (py ''2024-01-01T10:00:00'') \<rparr>,
      \<lparr> post_content = py ''buy'', post_timestamp = Some (py ''2024-01-01T09:00:00'') \<rparr>,
      \<lparr> post_content = py ''buy'', post_timestamp = Some (py ''2024-01-01T11:00:00'') \<rparr>]"



definition bot_profile :: profile where
  "bot_profile =
     \<lparr> pf_username = py ''user123456789'',
       pf_bio = py ''Follow back! f4f, link in bio, DM for promo'',
       pf_metadata = \<lparr> bm_followers = Value 10, bm_following = Value 6000,
                       bm_posts_count = Absent, bm_verified = Value False \<rparr>,
       pf_posts = hourly_posts \<rparr>"

text \<open>
  Three inputs for the ranking: the first and the third score alike (bot score 80,
  told apart by their sentiment entry), the second scores higher.
\<close>

definition no_metadata :: metadata where
  "no_metadata =
     \<lparr> md_followers = None, md_following = None, md_posts_count = None, md_verified = None \<rparr>"

definition ranking_sample :: "scorer_input list" where
  "ranking_sample =
     [\<lparr> si_bot_score = Some 80, si_metadata = no_metadata, si_interests = [],
         si_target_interests = [], si_sentiment_overall = None \<rparr>,
      \<lparr> si_bot_score = Some 20, si_metadata = no_metadata, si_interests = [],
         si_target_interests = [], si_sentiment_overall = None \<rparr>,
      \<lparr> si_bot_score = Some 80, si_metadata = no_metadata, si_interests = [],
         si_target_interests = [], si_sentiment_overall = Some 0 \<rparr>]"

text \<open>
  The two profiles of the repository's test \<^verbatim>\<open>test_verified_accounts_lower_score\<close>: a
  username and a metadata dictionary with the key \<^verbatim>\<open>verified\<close> only.
\<close>

definition verified_test_profile :: "pystr \<Rightarrow> bool \<Rightarrow> profile" where
  "verified_test_profile name v =
     \<lparr> pf_username = name, pf_bio = [],
       pf_metadata = \<lparr> bm_followers = Absent, bm_following = Absent,
                       bm_posts_count = Absent, bm_verified = Value v \<rparr>,
       pf_posts = [] \<rparr>"

section \<open>Auxiliary notions\<close>

text \<open>
  The positions of a text at which a URL scheme starts. The matches of
  \<^verbatim>\<open>https?://\<close> cannot overlap, so \<open>count_urls\<close> counts these positions.
\<close>

definition is_url_start :: "pystr \<Rightarrow> bool" where
  "is_url_start s = (prefix (py ''https://'') s \<or> prefix (py ''http://'') s)"

fun url_positions :: "pystr \<Rightarrow> nat" where
  "url_positions [] = 0"
| "url_positions (c # cs) = (if is_url_start (c # cs) then 1 else 0) + url_positions cs"

text \<open>
  An outcome that is not a ZeroDivisionError and that, when it is a result, has the
  given property.
\<close>

definition safely :: "('a \<Rightarrow> bool) \<Rightarrow> py_error + 'a \<Rightarrow> bool" where
  "safely P x = (case x of Inl e \<Rightarrow> e \<noteq> ZeroDivisionError | Inr r \<Rightarrow> P r)"

section \<open>Properties\<close>

subsection \<open>Rounding\<close>

lemma round_half_even_ge: "of_int n \<le> x \<Longrightarrow> n \<le> round_half_even x"
proof -
  assume "of_int n \<le> x"
  then have "n \<le> \<lfloor>x\<rfloor>" by (simp add: le_floor_iff)
  then show ?thesis by (auto simp: round_half_even_def Let_def)
qed

lemma round_half_even_le: "x \<le> of_int n \<Longrightarrow> round_half_even x \<le> n"
proof -
  assume h: "x \<le> of_int n"
  then have f: "\<lfloor>x\<rfloor> \<le> n" by (simp add: floor_le_iff)
  show ?thesis
  proof (cases "\<lfloor>x\<rfloor> = n")
    case True
    then have "x = of_int n" using h by linarith
    then show ?thesis by (simp add: round_half_even_def)
  next
    case False
    then have "\<lfloor>x\<rfloor> + 1 \<le> n" using f by simp
    then show ?thesis using f by (auto simp: round_half_even_def Let_def)
  qed
qed

lemma py_round_ge: "of_int a / 10 ^ n \<le> x \<Longrightarrow> of_int a / 10 ^ n \<le> py_round x n"
proof -
  assume "of_int a / 10 ^ n \<le> x"
  then have "of_int a \<le> x * 10 ^ n" by (simp add: pos_divide_le_eq)
  then have "a \<le> round_half_even (x * 10 ^ n)" by (rule round_half_even_ge)
  then show ?thesis by (simp add: py_round_def divide_right_mono)
qed

lemma py_round_le: "x \<le> of_int a / 10 ^ n \<Longrightarrow> py_round x n \<le> of_int a / 10 ^ n"
proof -
  assume "x \<le> of_int a / 10 ^ n"
  then have "x * 10 ^ n \<le> of_int a" by (simp add: pos_le_divide_eq)
  then have "round_half_even (x * 10 ^ n) \<le> a" by (rule round_half_even_le)
  then show ?thesis by (simp add: py_round_def divide_right_mono)
qed

subsection \<open>BotDetector: confidence\<close>

text \<open>
  Claim C10. For every profile, the confidence that \<^verbatim>\<open>BotDetector.analyze\<close> reports
  (computed by \<^verbatim>\<open>_calculate_confidence\<close>) lies between 0.5 and 0.95: the base of 0.5
  is only ever increased, and the increases add up to at most 0.45, so the cap at 1.0
  never binds.
\<close>

theorem bot_confidence_bounds:
  "1 / 2 \<le> bot_confidence profile_data \<and> bot_confidence profile_data \<le> 95 / 100"
proof -
  define c where "c = (let c = 1 / 2;
          c = (if pf_bio profile_data \<noteq> [] then c + 1 / 10 else c);
          c = (if metadata_truthy (pf_metadata profile_data) then c + 15 / 100 else c);
          posts = pf_posts profile_data;
          c = (if posts \<noteq> []
               then (if 10 < length posts then c + 2 / 10
                     else if 3 < length posts then c + 1 / 10 else c)
               else c)
      in (c::real))"
  have b: "of_int 50 / 10 ^ 2 \<le> c" "c \<le> of_int 95 / 10 ^ 2"
    by (auto simp: c_def Let_def)
  have "bot_confidence profile_data = min (py_round c 2) 1"
    by (simp add: bot_confidence_def c_def Let_def)
  moreover have "of_int 50 / 10 ^ 2 \<le> py_round c 2" using b(1) by (rule py_round_ge)
  moreover have "py_round c 2 \<le> of_int 95 / 10 ^ 2" using b(2) by (rule py_round_le)
  ultimately show ?thesis by simp
qed

theorem bot_confidence_bounds_witness:
  "1 / 2 \<le> bot_confidence \<lparr> pf_username = py ''john_doe'', pf_bio = py ''hello'',
        pf_metadata = \<lparr> bm_followers = Value 10, bm_following = Absent,
                        bm_posts_count = Absent, bm_verified = Absent \<rparr>,
        pf_posts = [] \<rparr>
   \<and> bot_confidence \<lparr> pf_username = py ''john_doe'', pf_bio = py ''hello'',
        pf_metadata = \<lparr> bm_followers = Value 10, bm_following = Absent,
                        bm_posts_count = Absent, bm_verified = Absent \<rparr>,
        pf_posts = [] \<rparr> \<le> 95 / 100"
  by (rule bot_confidence_bounds)

subsection \<open>BotDetector: the combined result from its parts\<close>

lemma BotDetector_analyze_Inr:
  assumes "analyze_username (pf_username p) = Inr (u, uf)"
    and "analyze_bio (pf_bio p) = (b, bf)"
    and "analyze_metrics (pf_metadata p) = Inr (m, mf)"
    and "analyze_content (pf_posts p) = Inr (c, cf)"
    and "analyze_temporal f (pf_posts p) = Inr (t, tf)"
  shows "BotDetector_analyze f p =
     Inr \<lparr> br_score = py_round (final_score u b m c t) 1,
           br_is_bot = (50 < final_score u b m c t),
           br_confidence = bot_confidence p,
           br_flags = remdups (uf @ bf @ mf @ cf @ tf),
           br_component_scores =
             \<lparr> cs_username = u, cs_bio = b, cs_metrics = m, cs_content = c, cs_temporal = t \<rparr> \<rparr>"
  by (simp add: BotDetector_analyze_def on_ok_def assms Let_def)

subsection \<open>Scenario D\<close>

lemma scenario_D_components:
  "analyze_username (pf_username scenario_D_profile) = Inr (50, [])"
  "analyze_bio (pf_bio scenario_D_profile) = (30, [py ''no_bio''])"
  "analyze_metrics (pf_metadata scenario_D_profile) = Inr (40, [py ''suspicious_follower_ratio''])"
  "analyze_content (pf_posts scenario_D_profile) = Inr (30, [py ''no_posts''])"
  by code_simp+

lemma scenario_D_temporal:
  "analyze_temporal f (pf_posts scenario_D_profile) = Inr (30, [py ''insufficient_temporal_data''])"
  by (simp add: analyze_temporal_def scenario_D_profile_def)

lemma scenario_D_bot_score:
  "\<exists>r. BotDetector_analyze f scenario_D_profile = Inr r \<and> br_score r = 355 / 10"
proof -
  have "py_round (final_score 50 30 40 30 30) 1 = 355 / 10" by code_simp
  then show ?thesis
    using BotDetector_analyze_Inr[OF scenario_D_components scenario_D_temporal, of f]
    by simp
qed

lemma scenario_D_scored:
  "qs_overall (ProfileScorer_score (scenario_D_input (355 / 10))) = 431 / 10"
  "qs_tier (ProfileScorer_score (scenario_D_input (355 / 10))) = py ''C''"
  by code_simp+

lemma scenario_D_quality_eq:
  "scenario_D_quality f = Inr (ProfileScorer_score (scenario_D_input (355 / 10)))"
proof -
  obtain r where r: "BotDetector_analyze f scenario_D_profile = Inr r" "br_score r = 355 / 10"
    using scenario_D_bot_score by blast
  show ?thesis by (simp only: scenario_D_quality_def r on_ok_def sum.case)
qed

text \<open>
  With the bot score 80 that the repository's test passes in, the same metadata gives
  the overall value 29.8 and the tier D.
\<close>

lemma scenario_D_given_score:
  "qs_overall (ProfileScorer_score (scenario_D_input 80)) = 298 / 10
   \<and> qs_tier (ProfileScorer_score (scenario_D_input 80)) = py ''D''"
  by code_simp

text \<open>
  Claim C2, as the code has it. For the profile of Scenario D (empty bio, 10 followers,
  5000 followed, no posts; no username given), BotDetector reports the score 35.5, and
  ProfileScorer on that score and the same metadata returns the overall value 43.1 and
  the tier C. The tier is within C and D as claimed; the overall value is above 40.
\<close>

theorem scenario_D_quality_value:
  "\<exists>q. scenario_D_quality fromisoformat = Inr q \<and> qs_overall q = 431 / 10 \<and> qs_tier q = py ''C''"
  using scenario_D_quality_eq[of fromisoformat] scenario_D_scored by simp

text \<open>
  Claim C2 as stated fails: the analysis returns a result, and that result does not
  have an overall value of at most 40 together with a tier among C and D.
\<close>

theorem scenario_D_counterexample:
  "\<not> isl (scenario_D_quality reject_all)
   \<and> \<not> (qs_overall (projr (scenario_D_quality reject_all)) \<le> 40
        \<and> qs_tier (projr (scenario_D_quality reject_all)) \<in> {py ''C'', py ''D''})"
  using scenario_D_quality_eq[of reject_all] scenario_D_scored by simp

subsection \<open>BotDetector: the verified short cut\<close>

text \<open>
  Claim C4 at a failing input. For the metadata without counts, the metrics sub-score
  of the verified account is 5 and that of the unverified account is 0: marking the
  account verified raises the sub-score.
\<close>

theorem metrics_verified_example:
  "analyze_metrics \<lparr> bm_followers = Absent, bm_following = Absent, bm_posts_count = Absent,
       bm_verified = Value True \<rparr> = Inr (5, [py ''verified_account''])
   \<and> analyze_metrics \<lparr> bm_followers = Absent, bm_following = Absent, bm_posts_count = Absent,
       bm_verified = Value False \<rparr> = Inr (0, [])"
  by code_simp

text \<open>
  On the two profiles of the repository's test the verified account gets the higher
  bot score, 19.2 against 18.0, where the test expects the lower one.
\<close>

lemma verified_test_example:
  "map_sum id br_score
     (BotDetector_analyze reject_all (verified_test_profile (py ''official_brand'') True))
     = Inr (192 / 10)
   \<and> map_sum id br_score
     (BotDetector_analyze reject_all (verified_test_profile (py ''random_account'') False))
     = Inr 18"
  by code_simp

subsection \<open>SentimentAnalyzer\<close>

text \<open>
  Claim C1 at a failing input. The text "absolutely amazing" has one lexicon match,
  0.9 raised by the intensifier 1.8, and no other signal: the overall sentiment
  returned is 1.62, outside the interval from -1 to 1.
\<close>

theorem sentiment_overall_example:
  "sr_overall (SentimentAnalyzer_analyze (py ''absolutely amazing'')) = 162 / 100"
  by code_simp

lemma sentiment_confidence_range:
  "1 / 10 \<le> sentiment_confidence text vs \<and> sentiment_confidence text vs \<le> 1"
  by (simp add: sentiment_confidence_def Let_def)

lemma sr_confidence_analyze:
  "\<not> (text0 = [] \<or> strip text0 = []) \<Longrightarrow>
   sr_confidence (SentimentAnalyzer_analyze text0) =
     py_round (sentiment_confidence (strip text0)
       (valid_signals [(lexicon_analysis (strip text0), 1 / 2),
          (emoji_analysis (strip text0), 1 / 4), (pattern_analysis (strip text0), 1 / 4)])) 3"
  by (simp add: SentimentAnalyzer_analyze_def Let_def)

text \<open>
  Claim C5, amended. For every text that is not empty and not whitespace only, the
  confidence returned by \<^verbatim>\<open>SentimentAnalyzer.analyze\<close> lies between 0.1 and 1.0; for
  the empty text and for a text of whitespace only, the analysis returns early with
  the confidence 0.
\<close>

theorem sentiment_confidence_bounds:
  "if text0 = [] \<or> strip text0 = []
   then sr_confidence (SentimentAnalyzer_analyze text0) = 0
   else 1 / 10 \<le> sr_confidence (SentimentAnalyzer_analyze text0)
        \<and> sr_confidence (SentimentAnalyzer_analyze text0) \<le> 1"
proof (cases "text0 = [] \<or> strip text0 = []")
  case True
  then show ?thesis by (auto simp: SentimentAnalyzer_analyze_def)
next
  case False
  define c where "c = sentiment_confidence (strip text0)
     (valid_signals [(lexicon_analysis (strip text0), 1 / 2),
        (emoji_analysis (strip text0), 1 / 4), (pattern_analysis (strip text0), 1 / 4)])"
  have conf: "sr_confidence (SentimentAnalyzer_analyze text0) = py_round c 3"
    unfolding c_def by (rule sr_confidence_analyze[OF False])
  have lo: "of_int 100 / 10 ^ 3 \<le> c" and hi: "c \<le> of_int 1000 / 10 ^ 3"
    using sentiment_confidence_range[of "strip text0"] by (simp_all add: c_def)
  have "of_int 100 / 10 ^ 3 \<le> py_round c 3" using lo by (rule py_round_ge)
  moreover have "py_round c 3 \<le> of_int 1000 / 10 ^ 3" using hi by (rule py_round_le)
  ultimately show ?thesis using False conf by simp
qed

theorem sentiment_confidence_witness:
  "if py ''ok'' = [] \<or> strip (py ''ok'') = []
   then sr_confidence (SentimentAnalyzer_analyze (py ''ok'')) = 0
   else 1 / 10 \<le> sr_confidence (SentimentAnalyzer_analyze (py ''ok''))
        \<and> sr_confidence (SentimentAnalyzer_analyze (py ''ok'')) \<le> 1"
  by (rule sentiment_confidence_bounds)

text \<open>
  Claim C5 as stated fails at the empty text: the confidence returned is 0, below 0.1.
\<close>

theorem sentiment_confidence_counterexample:
  "\<not> (1 / 10 \<le> sr_confidence (SentimentAnalyzer_analyze [])
      \<and> sr_confidence (SentimentAnalyzer_analyze []) \<le> 1)"
  by (simp add: SentimentAnalyzer_analyze_def)

subsection \<open>BotDetector: sub-scores, exceptions and the bot flag\<close>

lemma safely_Inr: "P r \<Longrightarrow> safely P (Inr r)"
  by (simp add: safely_def)

lemma safely_on_ok:
  "safely P x \<Longrightarrow> (\<And>r. P r \<Longrightarrow> safely Q (f r)) \<Longrightarrow> safely Q (on_ok x f)"
  by (cases x) (simp_all add: safely_def on_ok_def)

lemma safely_weaken: "safely P x \<Longrightarrow> (\<And>r. P r \<Longrightarrow> Q r) \<Longrightarrow> safely Q x"
  by (cases x) (simp_all add: safely_def)


lemma safely_result: "safely P x \<Longrightarrow> x = Inr r \<Longrightarrow> P r"
  by (simp add: safely_def)

lemma safely_py_int_div: "b \<noteq> 0 \<Longrightarrow> safely (\<lambda>q. True) (py_int_div a b)"
  by (simp add: safely_def py_int_div_def)

lemma safely_py_div: "b \<noteq> 0 \<Longrightarrow> safely (\<lambda>q. True) (py_div a b)"
  by (simp add: safely_def py_div_def)

lemma safely_as_int: "safely (\<lambda>i. True) (as_int v)"
  by (cases v) (simp_all add: safely_def as_int_def)

lemma dvd5_bump: "5 dvd n \<Longrightarrow> 5 dvd fst st \<Longrightarrow> 5 dvd fst (bump c n f st)"
  by (cases st) simp

lemma dvd5_capped: "5 dvd fst st \<Longrightarrow> 5 dvd fst (capped st)"
  by (cases st) (simp add: min_def)

lemmas dvd5 = dvd5_bump dvd5_capped

lemma username_patterns_dvd: "5 dvd fst (username_patterns username)"
  by (simp add: username_patterns_def BOT_USERNAME_PATTERNS_def dvd5 del: bump.simps)

lemma username_length_dvd: "5 dvd fst st \<Longrightarrow> 5 dvd fst (username_length username st)"
  by (simp add: username_length_def dvd5 del: bump.simps)

lemma safely_if:
  "(c \<Longrightarrow> safely P a) \<Longrightarrow> (\<not> c \<Longrightarrow> safely P b) \<Longrightarrow> safely P (if c then a else b)"
  by simp

lemma unusual_safe:
  "safely (\<lambda>b. True)
     (if 0 < c then on_ok (py_int_div v (max c 1)) (\<lambda>ratio. Inr (ratio < 1 / 10))
      else Inr False)"
  by (intro safely_if safely_Inr safely_on_ok[OF safely_py_int_div]; simp)

lemma analyze_username_safe: "safely (\<lambda>r. 5 dvd fst r) (analyze_username username)"
  unfolding analyze_username_def Let_def
  by (intro safely_if safely_Inr safely_on_ok[OF unusual_safe] dvd5 username_length_dvd
      username_patterns_dvd; simp)

lemma follower_ratio_safe: "safely (\<lambda>r. 5 dvd fst r) (follower_ratio followers n_following)"
  unfolding follower_ratio_def
  by (intro safely_if safely_Inr safely_on_ok[OF safely_as_int]
      safely_on_ok[OF safely_py_int_div]; simp)

lemma unrealistic_safe:
  "safely (\<lambda>b. True)
     (if 1000000 < n then on_ok (as_int posts_count) (\<lambda>n_posts. Inr (n_posts < 10))
      else Inr False)"
  by (intro safely_if safely_Inr safely_on_ok[OF safely_as_int]; simp)

lemma analyze_metrics_safe: "safely (\<lambda>r. 5 dvd fst r) (analyze_metrics md)"
  unfolding analyze_metrics_def Let_def
  by (intro safely_if safely_Inr safely_on_ok[OF safely_as_int]
      safely_on_ok[OF follower_ratio_safe] safely_on_ok[OF unrealistic_safe] dvd5; simp)

lemma hashtag_repetition_safe:
  "5 dvd fst st \<Longrightarrow> safely (\<lambda>r. 5 dvd fst r) (hashtag_repetition hs st)"
  unfolding hashtag_repetition_def
  by (intro safely_if safely_Inr safely_on_ok[OF safely_py_int_div] dvd5; simp)

lemma analyze_content_safe: "safely (\<lambda>r. 5 dvd fst r) (analyze_content posts)"
  unfolding analyze_content_def Let_def
  by (intro safely_if safely_Inr safely_on_ok[OF hashtag_repetition_safe]
      safely_on_ok[OF safely_py_int_div] dvd5; simp add: filter_map)

lemma ex_pair_fst: "(\<exists>a. (\<exists>b. x = (a, b)) \<and> P a) \<longleftrightarrow> P (fst x)"
  by (cases x) auto

lemma np_mean_total: "xs \<noteq> [] \<Longrightarrow> \<exists>m. np_mean xs = Inr m"
  by (simp add: np_mean_def py_div_def)

lemma np_std_total: "xs \<noteq> [] \<Longrightarrow> \<exists>s. np_std xs = Inr s"
  by (simp add: np_std_def np_mean_def py_div_def on_ok_def)

lemma regular_posting_total: "\<exists>b. regular_posting a s = Inr b"
  by (auto simp: regular_posting_def on_ok_def py_div_def)

lemma analyze_temporal_total:
  "(analyze_temporal f posts = Inl TypeError \<and> mixed_offsets (extract_timestamps f posts))
   \<or> (\<exists>r. analyze_temporal f posts = Inr r \<and> 5 dvd fst r)"
proof (cases "posts = [] \<or> length posts < 3 \<or> length (extract_timestamps f posts) < 3")
  case True
  then show ?thesis by (auto simp: analyze_temporal_def Let_def)
next
  case False
  define ts where "ts = extract_timestamps f posts"
  show ?thesis
  proof (cases "mixed_offsets ts")
    case True
    then show ?thesis using False
      by (simp add: analyze_temporal_def Let_def ts_def[symmetric] on_ok_def sort_timestamps_def)
  next
    case unmixed: False
    define sorted_ts where "sorted_ts = sort_key dt_micros ts"
    have Inr: "sort_timestamps ts = Inr sorted_ts"
      using unmixed by (simp add: sort_timestamps_def sorted_ts_def)
    show ?thesis
    proof (cases "intervals sorted_ts = []")
      case True
      then show ?thesis using False Inr
        by (simp add: analyze_temporal_def Let_def ts_def[symmetric] on_ok_def)
    next
      case ne: False
      obtain a where a: "np_mean (intervals sorted_ts) = Inr a" using np_mean_total[OF ne] by blast
      obtain s where s: "np_std (intervals sorted_ts) = Inr s" using np_std_total[OF ne] by blast
      obtain b where b: "regular_posting a s = Inr b" using regular_posting_total by blast
      show ?thesis using False Inr ne a s b
        by (simp add: analyze_temporal_def Let_def ts_def[symmetric] on_ok_def
            ex_pair_fst dvd5 del: bump.simps capped.simps)
    qed
  qed
qed

lemma analyze_bio_dvd: "5 dvd fst (analyze_bio bio)"
  by (simp add: analyze_bio_def Let_def dvd5 del: bump.simps capped.simps)



lemma BotDetector_analyze_username_error:
  "analyze_username (pf_username p) = Inl e \<Longrightarrow> BotDetector_analyze f p = Inl e"
  by (simp add: BotDetector_analyze_def on_ok_def)

lemma BotDetector_analyze_metrics_error:
  "analyze_username (pf_username p) = Inr ur \<Longrightarrow> analyze_metrics (pf_metadata p) = Inl e
   \<Longrightarrow> BotDetector_analyze f p = Inl e"
  by (simp add: BotDetector_analyze_def on_ok_def case_prod_beta)

lemma BotDetector_analyze_content_error:
  "analyze_username (pf_username p) = Inr ur \<Longrightarrow> analyze_metrics (pf_metadata p) = Inr mr
   \<Longrightarrow> analyze_content (pf_posts p) = Inl e \<Longrightarrow> BotDetector_analyze f p = Inl e"
  by (simp add: BotDetector_analyze_def on_ok_def case_prod_beta)

lemma BotDetector_analyze_temporal_error:
  "analyze_username (pf_username p) = Inr ur \<Longrightarrow> analyze_metrics (pf_metadata p) = Inr mr
   \<Longrightarrow> analyze_content (pf_posts p) = Inr cr \<Longrightarrow> analyze_temporal f (pf_posts p) = Inl e
   \<Longrightarrow> BotDetector_analyze f p = Inl e"
  by (simp add: BotDetector_analyze_def on_ok_def case_prod_beta)

lemma BotDetector_analyze_safe:
  "safely (\<lambda>r. \<exists>u b m c t. 5 dvd u \<and> 5 dvd b \<and> 5 dvd m \<and> 5 dvd c \<and> 5 dvd t
        \<and> br_score r = py_round (final_score u b m c t) 1
        \<and> br_is_bot r = (50 < final_score u b m c t))
     (BotDetector_analyze f p)"
proof (cases "analyze_username (pf_username p)")
  case (Inl e)
  then have "e \<noteq> ZeroDivisionError"
    using analyze_username_safe[of "pf_username p"] by (simp add: safely_def)
  then show ?thesis using BotDetector_analyze_username_error[OF Inl] by (simp add: safely_def)
next
  case u: (Inr ur)
  obtain u uf where ur: "ur = (u, uf)" by (cases ur)
  have du: "5 dvd u" using analyze_username_safe[of "pf_username p"] u ur by (simp add: safely_def)
  obtain b bf where b: "analyze_bio (pf_bio p) = (b, bf)" by (cases "analyze_bio (pf_bio p)")
  have db: "5 dvd b" using analyze_bio_dvd[of "pf_bio p"] b by simp
  show ?thesis
  proof (cases "analyze_metrics (pf_metadata p)")
    case (Inl e)
    then have "e \<noteq> ZeroDivisionError"
      using analyze_metrics_safe[of "pf_metadata p"] by (simp add: safely_def)
    then show ?thesis using BotDetector_analyze_metrics_error[OF u Inl]
      by (simp add: safely_def)
  next
    case m: (Inr mr)
    obtain m mf where mr: "mr = (m, mf)" by (cases mr)
    have dm: "5 dvd m"
      using analyze_metrics_safe[of "pf_metadata p"] m mr by (simp add: safely_def)
    show ?thesis
    proof (cases "analyze_content (pf_posts p)")
      case (Inl e)
      then have "e \<noteq> ZeroDivisionError"
        using analyze_content_safe[of "pf_posts p"] by (simp add: safely_def)
      then show ?thesis using BotDetector_analyze_content_error[OF u m Inl]
        by (simp add: safely_def)
    next
      case c: (Inr cr)
      obtain c cf where cr: "cr = (c, cf)" by (cases cr)
      have dc: "5 dvd c"
        using analyze_content_safe[of "pf_posts p"] c cr by (simp add: safely_def)
      from analyze_temporal_total[of f "pf_posts p"] show ?thesis
      proof
        assume "analyze_temporal f (pf_posts p) = Inl TypeError
          \<and> mixed_offsets (extract_timestamps f (pf_posts p))"
        then have "BotDetector_analyze f p = Inl TypeError"
          using BotDetector_analyze_temporal_error[OF u m c] by simp
        then show ?thesis by (simp add: safely_def)
      next
        assume "\<exists>r. analyze_temporal f (pf_posts p) = Inr r \<and> 5 dvd fst r"
        then obtain t tf where t: "analyze_temporal f (pf_posts p) = Inr (t, tf)" "5 dvd t"
          by auto
        note eq = BotDetector_analyze_Inr[OF u[unfolded ur] b m[unfolded mr] c[unfolded cr] t(1)]
        show ?thesis unfolding eq
          by (rule safely_Inr,
              intro exI[of _ u] exI[of _ b] exI[of _ m] exI[of _ c] exI[of _ t] conjI
                du db dm dc t(2); simp)
      qed
    qed
  qed
qed

lemma final_score_quarter:
  assumes "5 dvd u" "5 dvd b" "5 dvd m" "5 dvd c" "5 dvd t"
  shows "\<exists>k::int. final_score u b m c t = of_int k / 4"
proof -
  obtain u' b' m' c' t' where "u = 5 * u'" "b = 5 * b'" "m = 5 * m'" "c = 5 * c'" "t = 5 * t'"
    using assms by (auto elim!: dvdE)
  then have "final_score u b m c t = of_int (3 * u' + 3 * b' + 5 * m' + 5 * c' + 4 * t') / 4"
    by (simp add: final_score_def field_simps)
  then show ?thesis by blast
qed

lemma round_quarter_above_50:
  "(50 < py_round (of_int k / 4) 1) = (50 < (of_int k / 4 :: real))"
proof (cases "k \<le> 200")
  case True
  then have "(of_int k / 4 :: real) \<le> of_int 500 / 10 ^ 1" by simp
  then have "py_round (of_int k / 4) 1 \<le> of_int 500 / 10 ^ 1" by (rule py_round_le)
  then show ?thesis using True by simp
next
  case False
  then have "201 \<le> k" by simp
  then have "(201::real) \<le> of_int k" by linarith
  then have "of_int 502 / 10 ^ 1 \<le> (of_int k / 4 :: real)" by simp
  then have "of_int 502 / 10 ^ 1 \<le> py_round (of_int k / 4) 1" by (rule py_round_ge)
  then show ?thesis using False by simp
qed

text \<open>
  The sample profile: the three timestamps are sorted, the two intervals are one hour
  each, so the deviation is 0 and the posting counts as regular; the sub-scores are
  75, 80, 65, 95 and 50, and their weighted sum is 73.25.
\<close>

lemma hourly_timestamps:
  "map dt_micros (extract_timestamps hourly_parser hourly_posts)
     = [36000000000, 32400000000, 39600000000]"
  "map_sum id (map dt_micros) (sort_timestamps (extract_timestamps hourly_parser hourly_posts))
     = Inr [32400000000, 36000000000, 39600000000]"
  "map_sum id intervals (sort_timestamps (extract_timestamps hourly_parser hourly_posts))
     = Inr [3600, 3600]"
  by code_simp+

lemma hourly_temporal:
  "analyze_temporal hourly_parser hourly_posts = Inr (50, [py ''suspiciously_regular_posting''])"
proof -
  obtain sorted where s: "sort_timestamps (extract_timestamps hourly_parser hourly_posts) = Inr sorted"
    and i: "intervals sorted = [3600, 3600]"
    and h: "map dt_micros sorted = [32400000000, 36000000000, 39600000000]"
    using hourly_timestamps(2,3)
    by (cases "sort_timestamps (extract_timestamps hourly_parser hourly_posts)") auto
  have l: "length sorted = 3"
    using h by (metis length_map length_Cons list.size(3) numeral_3_eq_3)
  have n: "length (extract_timestamps hourly_parser hourly_posts) = 3"
    using hourly_timestamps(1) by (metis length_map length_Cons list.size(3) numeral_3_eq_3)
  have p: "length hourly_posts = 3" "hourly_posts \<noteq> []" by (simp_all add: hourly_posts_def)
  have m: "np_mean [3600, 3600] = Inr 3600" by (simp add: np_mean_def py_div_def)
  have d: "np_std [3600, 3600] = Inr 0"
    by (simp add: np_std_def np_mean_def py_div_def on_ok_def)
  show ?thesis
    by (simp add: analyze_temporal_def Let_def p n s i l m d on_ok_def regular_posting_def
        py_div_def count_if_def)
qed

lemma bot_profile_components:
  "analyze_username (pf_username bot_profile)
     = Inr (75, [py ''suspicious_username_pattern:'' @ 92 # py ''d{6,}$'',
                 py ''suspicious_username_pattern:^[a-z]{3,5}'' @ 92 # py ''d{4,}'',
                 py ''suspicious_username_pattern:^user'' @ 92 # py ''d+''])"
  "analyze_bio (pf_bio bot_profile) = (80, [py ''spam_phrases:4''])"
  "analyze_metrics (pf_metadata bot_profile)
     = Inr (65, [py ''suspicious_follower_ratio'', py ''mass_following''])"
  "analyze_content (pf_posts bot_profile)
     = Inr (95, [py ''high_content_duplication'', py ''very_short_posts'',
                 py ''high_promotional_content''])"
  by code_simp+

lemma bot_profile_result:
  "\<exists>r. BotDetector_analyze hourly_parser bot_profile = Inr r
       \<and> br_score r = 732 / 10 \<and> br_is_bot r \<and> br_confidence r = 75 / 100"
proof -
  have t: "analyze_temporal hourly_parser (pf_posts bot_profile)
      = Inr (50, [py ''suspiciously_regular_posting''])"
    using hourly_temporal by (simp add: bot_profile_def)
  have "py_round (final_score 75 80 65 95 50) 1 = 732 / 10" "50 < final_score 75 80 65 95 50"
    "bot_confidence bot_profile = 75 / 100"
    by code_simp+
  then show ?thesis
    using BotDetector_analyze_Inr[OF bot_profile_components t] by simp
qed

text \<open>
  Claim C3. Whenever \<^verbatim>\<open>BotDetector.analyze\<close> returns a result, its \<^verbatim>\<open>is_bot\<close> field is
  true exactly when its \<^verbatim>\<open>score\<close> field is greater than 50. The field \<^verbatim>\<open>is_bot\<close> tests
  the weighted sum and \<^verbatim>\<open>score\<close> is that sum rounded to one place; the two agree
  because every sub-score is a multiple of 5, so the sum is a multiple of 0.25.
\<close>

theorem is_bot_iff_score_above_50:
  assumes "BotDetector_analyze fromisoformat profile_data = Inr r"
  shows "br_is_bot r = (50 < br_score r)"
proof -
  from safely_result[OF BotDetector_analyze_safe assms]
  obtain u b m c t where d: "5 dvd u" "5 dvd b" "5 dvd m" "5 dvd c" "5 dvd t"
    and r: "br_score r = py_round (final_score u b m c t) 1"
       "br_is_bot r = (50 < final_score u b m c t)"
    by auto
  obtain k :: int where k: "final_score u b m c t = of_int k / 4"
    using final_score_quarter[OF d] by blast
  show ?thesis by (simp only: r k round_quarter_above_50)
qed

theorem is_bot_iff_score_above_50_witness:
  "br_is_bot (projr (BotDetector_analyze hourly_parser bot_profile))
     = (50 < br_score (projr (BotDetector_analyze hourly_parser bot_profile)))"
proof -
  obtain r where "BotDetector_analyze hourly_parser bot_profile = Inr r"
    using bot_profile_result by blast
  then have "BotDetector_analyze hourly_parser bot_profile
      = Inr (projr (BotDetector_analyze hourly_parser bot_profile))"
    by simp
  then show ?thesis by (rule is_bot_iff_score_above_50)
qed





text \<open>
  Two more inputs on which the metrics analysis raises: a key that holds \<^verbatim>\<open>None\<close>,
  and a quotient beyond the range of a float.
\<close>

lemma analyze_metrics_none_example:
  "analyze_metrics \<lparr> bm_followers = Value 10, bm_following = NoneValue,
       bm_posts_count = NoneValue, bm_verified = NoneValue \<rparr> = Inl TypeError"
  by code_simp

lemma analyze_metrics_overflow_example:
  "analyze_metrics \<lparr> bm_followers = Value (2 ^ 1024), bm_following = Value 1,
       bm_posts_count = Absent, bm_verified = Absent \<rparr> = Inl OverflowError"
  by (simp add: analyze_metrics_def dict_get_def as_int_def is_true_def follower_ratio_def
      on_ok_def py_int_div_def float_limit_def)

subsection \<open>BotDetector: the bio sub-score under an added spam phrase\<close>

lemma fst_capped: "fst (capped st) = min (fst st) 100"
  by (cases st) simp

lemma contains_iff: "contains p s \<longleftrightarrow> (\<exists>a c. s = a @ p @ c)"
proof (induction s)
  case Nil
  then show ?case by auto
next
  case (Cons x xs)
  show ?case
  proof
    assume "contains p (x # xs)"
    then consider "prefix p (x # xs)" | "contains p xs" by auto
    then show "\<exists>a c. x # xs = a @ p @ c"
    proof cases
      case 1
      then obtain c where "x # xs = p @ c" by (auto simp: prefix_def)
      then have "x # xs = [] @ p @ c" by simp
      then show ?thesis by blast
    next
      case 2
      then obtain a c where "xs = a @ p @ c" using Cons.IH by blast
      then have "x # xs = (x # a) @ p @ c" by simp
      then show ?thesis by blast
    qed
  next
    assume "\<exists>a c. x # xs = a @ p @ c"
    then obtain a c where ac: "x # xs = a @ p @ c" by blast
    show "contains p (x # xs)"
    proof (cases a)
      case Nil
      then have "prefix p (x # xs)" using ac by (simp add: prefix_def)
      then show ?thesis by simp
    next
      case (Cons y ys)
      then have "xs = ys @ p @ c" using ac by simp
      then have "contains p xs" using Cons.IH by blast
      then show ?thesis by simp
    qed
  qed
qed

lemma contains_embed: "contains p s \<Longrightarrow> contains p (u @ s @ v)"
proof -
  assume "contains p s"
  then obtain a c where "s = a @ p @ c" by (auto simp: contains_iff)
  then have "u @ s @ v = (u @ a) @ p @ (c @ v)" by simp
  then show ?thesis unfolding contains_iff by blast
qed

lemma lower_append: "lower (u @ s) = lower u @ lower s"
  by (simp add: lower_def)

lemma count_if_embed: "count_if P s \<le> count_if P (u @ s @ v)"
  by (simp add: count_if_def)

lemma count_if_nonneg: "0 \<le> count_if P xs"
  by (simp add: count_if_def)

lemma count_if_mono:
  "(\<And>x. x \<in> set xs \<Longrightarrow> P x \<Longrightarrow> Q x) \<Longrightarrow> count_if P xs \<le> count_if Q xs"
  by (induction xs) (auto simp: count_if_def)

lemma count_if_strict:
  "(\<And>x. x \<in> set xs \<Longrightarrow> P x \<Longrightarrow> Q x) \<Longrightarrow> p \<in> set xs \<Longrightarrow> Q p \<Longrightarrow> \<not> P p
   \<Longrightarrow> count_if P xs + 1 \<le> count_if Q xs"
proof (induction xs)
  case Nil
  then show ?case by simp
next
  case (Cons x xs)
  have mono: "count_if P xs \<le> count_if Q xs"
    using Cons.prems(1) by (intro count_if_mono) auto
  show ?case
  proof (cases "p = x")
    case True
    then show ?thesis using Cons.prems mono by (simp add: count_if_def)
  next
    case False
    then have "count_if P xs + 1 \<le> count_if Q xs"
      using Cons by auto
    then show ?thesis using Cons.prems(1)[of x] by (auto simp: count_if_def)
  qed
qed

lemma not_url_start: "c \<noteq> 104 \<Longrightarrow> \<not> is_url_start (c # cs)"
  by (simp add: is_url_start_def py_def)

lemma count_urls_positions: "count_urls s = url_positions s"
proof (induction s rule: count_urls.induct)
  case 1
  then show ?case by simp
next
  case (2 c cs)
  show ?case
  proof (cases "prefix (py ''https://'') (c # cs)")
    case True
    then obtain rest where r: "c # cs = py ''https://'' @ rest" by (auto simp: prefix_def)
    then have cs: "cs = py ''ttps://'' @ rest" by (simp add: py_def)
    have "url_positions cs = url_positions (drop 7 cs)"
      by (simp add: cs py_def not_url_start)
    then show ?thesis using True 2 by (simp add: is_url_start_def)
  next
    case False
    show ?thesis
    proof (cases "prefix (py ''http://'') (c # cs)")
      case True
      then obtain rest where r: "c # cs = py ''http://'' @ rest" by (auto simp: prefix_def)
      then have cs: "cs = py ''ttp://'' @ rest" by (simp add: py_def)
      have "url_positions cs = url_positions (drop 6 cs)"
        by (simp add: cs py_def not_url_start)
      then show ?thesis using True False 2 by (simp add: is_url_start_def)
    next
      case nh: False
      then show ?thesis using False 2 by (simp add: is_url_start_def)
    qed
  qed
qed

lemma is_url_start_append: "is_url_start s \<Longrightarrow> is_url_start (s @ v)"
  by (auto simp: is_url_start_def)

lemma url_positions_append: "url_positions s \<le> url_positions (s @ v)"
proof (induction s)
  case Nil
  then show ?case by simp
next
  case (Cons c cs)
  have "is_url_start (c # cs) \<Longrightarrow> is_url_start (c # cs @ v)"
    using is_url_start_append[of "c # cs" v] by simp
  then show ?case using Cons by auto
qed

lemma url_positions_prepend: "url_positions s \<le> url_positions (u @ s)"
  by (induction u) (auto intro: le_trans)

lemma count_urls_embed: "count_urls s \<le> count_urls (u @ s @ v)"
  unfolding count_urls_positions
  using url_positions_append[of s v] url_positions_prepend[of "s @ v" u] by linarith

lemma fst_bump_add: "fst (bump c n f st) = fst st + (if c then n else 0)"
  by (cases st) simp

lemma analyze_bio_score:
  assumes "bio \<noteq> []"
  shows "fst (analyze_bio bio) =
     min (count_if (\<lambda>phrase. contains phrase (lower bio)) SPAM_BIO_PHRASES * 20
          + count_if (\<lambda>phrase. contains phrase (lower bio)) GENERIC_BIOS * 10
          + (if 10 < count_if (\<lambda>char. 127462 < char) bio then 15 else 0)
          + (if 5 < count_if (\<lambda>char. char = 35) bio then 20 else 0)
          + (if 2 < int (count_urls bio) then 25 else 0)
          + (if length bio < 10 then 15 else 0)) 100"
proof -
  let ?sp = "count_if (\<lambda>phrase. contains phrase (lower bio)) SPAM_BIO_PHRASES"
  let ?g = "count_if (\<lambda>phrase. contains phrase (lower bio)) GENERIC_BIOS"
  have sp: "\<not> 0 < ?sp \<Longrightarrow> ?sp = 0"
    using count_if_nonneg[of "\<lambda>phrase. contains phrase (lower bio)" SPAM_BIO_PHRASES] by linarith
  have g: "\<not> 0 < ?g \<Longrightarrow> ?g = 0"
    using count_if_nonneg[of "\<lambda>phrase. contains phrase (lower bio)" GENERIC_BIOS] by linarith
  show ?thesis
  proof (cases "0 < ?sp")
    case True
    show ?thesis
    proof (cases "0 < ?g")
      case g1: True
      show ?thesis using assms True g1
        by (simp add: analyze_bio_def Let_def fst_capped fst_bump_add del: bump.simps capped.simps split del: if_split)
    next
      case g0: False
      show ?thesis using assms True g0 g[OF g0]
        by (simp add: analyze_bio_def Let_def fst_capped fst_bump_add del: bump.simps capped.simps split del: if_split)
    qed
  next
    case False
    show ?thesis
    proof (cases "0 < ?g")
      case g1: True
      show ?thesis using assms False sp[OF False] g1
        by (simp add: analyze_bio_def Let_def fst_capped fst_bump_add del: bump.simps capped.simps split del: if_split)
    next
      case g0: False
      show ?thesis using assms False sp[OF False] g0 g[OF g0]
        by (simp add: analyze_bio_def Let_def fst_capped fst_bump_add del: bump.simps capped.simps split del: if_split)
    qed
  qed
qed

text \<open>
  An extension of the bio by any text before and after it, in which the phrase occurs.
\<close>

lemma spam_phrase_embedded:
  assumes "bio \<noteq> []"
    and "p \<in> set SPAM_BIO_PHRASES"
    and "\<not> contains p (lower bio)"
    and "contains p (lower (before @ bio @ after))"
  shows "fst (analyze_bio bio) \<le> fst (analyze_bio (before @ bio @ after))"
proof -
  let ?bio' = "before @ bio @ after"
  define sp where "sp = count_if (\<lambda>phrase. contains phrase (lower bio)) SPAM_BIO_PHRASES"
  define sp' where "sp' = count_if (\<lambda>phrase. contains phrase (lower ?bio')) SPAM_BIO_PHRASES"
  define g where "g = count_if (\<lambda>phrase. contains phrase (lower bio)) GENERIC_BIOS"
  define g' where "g' = count_if (\<lambda>phrase. contains phrase (lower ?bio')) GENERIC_BIOS"
  define e :: int where "e = (if 10 < count_if (\<lambda>char. 127462 < char) bio then 15 else 0)"
  define e' :: int where "e' = (if 10 < count_if (\<lambda>char. 127462 < char) ?bio' then 15 else 0)"
  define h :: int where "h = (if 5 < count_if (\<lambda>char. char = 35) bio then 20 else 0)"
  define h' :: int where "h' = (if 5 < count_if (\<lambda>char. char = 35) ?bio' then 20 else 0)"
  define u :: int where "u = (if 2 < int (count_urls bio) then 25 else 0)"
  define u' :: int where "u' = (if 2 < int (count_urls ?bio') then 25 else 0)"
  define s :: int where "s = (if length bio < 10 then 15 else 0)"
  define s' :: int where "s' = (if length ?bio' < 10 then 15 else 0)"
  have low: "lower ?bio' = lower before @ lower bio @ lower after"
    by (simp add: lower_append)
  have ne: "?bio' \<noteq> []" using assms(1) by simp
  have spam: "sp + 1 \<le> sp'"
    unfolding sp_def sp'_def
    using assms(2,4,3) by (intro count_if_strict[where p = p]) (auto simp: low intro: contains_embed)
  have generic: "g \<le> g'"
    unfolding g_def g'_def
    by (intro count_if_mono) (auto simp: low intro: contains_embed)
  have emoji: "e \<le> e'"
    using count_if_embed[of "\<lambda>char. 127462 < char" bio before after] by (simp add: e_def e'_def)
  have hash: "h \<le> h'"
    using count_if_embed[of "\<lambda>char. char = 35" bio before after] by (simp add: h_def h'_def)
  have urls: "u \<le> u'"
    using count_urls_embed[of bio before after] by (simp add: u_def u'_def)
  have short: "s \<le> 15" "0 \<le> s'" by (simp_all add: s_def s'_def)
  have old: "fst (analyze_bio bio) = min (sp * 20 + g * 10 + e + h + u + s) 100"
    unfolding sp_def g_def e_def h_def u_def s_def by (rule analyze_bio_score[OF assms(1)])
  have new: "fst (analyze_bio ?bio') = min (sp' * 20 + g' * 10 + e' + h' + u' + s') 100"
    unfolding sp'_def g'_def e'_def h'_def u'_def s'_def by (rule analyze_bio_score[OF ne])
  show ?thesis unfolding old new using spam generic emoji hash urls short by linarith
qed

lemma spam_phrases_lower: "p \<in> set SPAM_BIO_PHRASES \<Longrightarrow> lower p = p"
proof -
  have "list_all (\<lambda>p. lower p = p) SPAM_BIO_PHRASES" by code_simp
  then show "p \<in> set SPAM_BIO_PHRASES \<Longrightarrow> lower p = p" by (simp add: list_all_iff)
qed

lemma contains_self_embed: "contains p (u @ p @ v)"
  unfolding contains_iff by blast

text \<open>
  Claim C8. Let a bio be non-empty and let a phrase of \<^verbatim>\<open>SPAM_BIO_PHRASES\<close> not
  occur in it. The bio extended with the phrase, after it or before it and with any
  text in between, has a bio sub-score that is at least the sub-score of the bio. The
  new match adds 20, every other count can only grow, and the only bonus that can be
  lost is the 15 for a bio shorter than 10 characters; the cap at 100 is monotone.
\<close>

theorem spam_phrase_monotone:
  assumes "bio \<noteq> []"
    and "p \<in> set SPAM_BIO_PHRASES"
    and "\<not> contains p (lower bio)"
  shows "fst (analyze_bio bio) \<le> fst (analyze_bio (bio @ sep @ p))
       \<and> fst (analyze_bio bio) \<le> fst (analyze_bio (p @ sep @ bio))"
proof -
  have "contains p (lower ([] @ bio @ (sep @ p)))"
    using contains_self_embed[of p "lower bio @ lower sep" "[]"] spam_phrases_lower[OF assms(2)]
    by (simp add: lower_append)
  then have a: "fst (analyze_bio bio) \<le> fst (analyze_bio ([] @ bio @ (sep @ p)))"
    by (rule spam_phrase_embedded[OF assms])
  have "contains p (lower ((p @ sep) @ bio @ []))"
    using contains_self_embed[of p "[]" "lower sep @ lower bio"] spam_phrases_lower[OF assms(2)]
    by (simp add: lower_append)
  then have b: "fst (analyze_bio bio) \<le> fst (analyze_bio ((p @ sep) @ bio @ []))"
    by (rule spam_phrase_embedded[OF assms])
  show ?thesis using a b by simp
qed

text \<open>
  At the bio "abcdefg" and the phrase "f4f" the short-bio bonus is lost and the
  sub-score still grows, from 15 to 20.
\<close>

theorem spam_phrase_monotone_witness:
  "py ''abcdefg'' \<noteq> [] \<and> py ''f4f'' \<in> set SPAM_BIO_PHRASES
   \<and> \<not> contains (py ''f4f'') (lower (py ''abcdefg''))
   \<and> fst (analyze_bio (py ''abcdefg'')) \<le> fst (analyze_bio (py ''abcdefg'' @ py '' '' @ py ''f4f''))
   \<and> fst (analyze_bio (py ''abcdefg'')) \<le> fst (analyze_bio (py ''f4f'' @ py '' '' @ py ''abcdefg''))"
proof -
  have h1: "py ''abcdefg'' \<noteq> []" by code_simp
  have h2: "py ''f4f'' \<in> set SPAM_BIO_PHRASES" by code_simp
  have h3: "\<not> contains (py ''f4f'') (lower (py ''abcdefg''))" by code_simp
  show ?thesis using spam_phrase_monotone[OF h1 h2 h3, of "py '' ''"] h1 h2 h3 by blast
qed

lemma spam_phrase_example:
  "fst (analyze_bio (py ''abcdefg'')) = 15
   \<and> fst (analyze_bio (py ''abcdefg'' @ py '' '' @ py ''f4f'')) = 20"
  by code_simp

subsection \<open>ProfileScorer: ranking\<close>

lemma sort_descending_mset: "mset (sort_descending k xs) = mset xs"
  by (simp add: sort_descending_def)

lemma sort_descending_sorted:
  "sorted_wrt (\<lambda>x y. k y \<le> k x) (sort_descending k xs)"
proof -
  have "sorted (map (\<lambda>x. - k x) (sort_key (\<lambda>x. - k x) xs))" by (rule sorted_sort_key)
  then show ?thesis by (simp add: sort_descending_def sorted_map)
qed

lemma sort_descending_stable:
  "filter (\<lambda>x. k x = v) (sort_descending k xs) = filter (\<lambda>x. k x = v) xs"
proof -
  have "filter (\<lambda>x. - k x = - v) (sort_key (\<lambda>x. - k x) xs) = filter (\<lambda>x. - k x = - v) xs"
    by (rule sort_key_stable)
  then show ?thesis by (simp add: sort_descending_def)
qed

text \<open>
  Claim C6. For every list of profiles, the result of \<^verbatim>\<open>rank_profiles\<close> is a
  permutation of the input with each profile paired with its quality score; the
  overall values do not increase along the result; and for every value, the profiles
  with that overall value stand in the result in the order they have in the input.
\<close>

theorem rank_profiles_stable_descending:
  "mset (rank_profiles profiles) = mset (map (\<lambda>profile. (profile, ProfileScorer_score profile)) profiles)
   \<and> sorted_wrt (\<lambda>x y. qs_overall (snd y) \<le> qs_overall (snd x)) (rank_profiles profiles)
   \<and> filter (\<lambda>x. qs_overall (snd x) = v) (rank_profiles profiles)
       = filter (\<lambda>x. qs_overall (snd x) = v)
           (map (\<lambda>profile. (profile, ProfileScorer_score profile)) profiles)"
  unfolding rank_profiles_def Let_def
  using sort_descending_mset sort_descending_sorted[of "\<lambda>x. qs_overall (snd x)"]
    sort_descending_stable[of "\<lambda>x. qs_overall (snd x)"]
  by blast

theorem rank_profiles_stable_descending_witness:
  "mset (rank_profiles ranking_sample)
     = mset (map (\<lambda>profile. (profile, ProfileScorer_score profile)) ranking_sample)
   \<and> sorted_wrt (\<lambda>x y. qs_overall (snd y) \<le> qs_overall (snd x)) (rank_profiles ranking_sample)
   \<and> filter (\<lambda>x. qs_overall (snd x) = 31) (rank_profiles ranking_sample)
       = filter (\<lambda>x. qs_overall (snd x) = 31)
           (map (\<lambda>profile. (profile, ProfileScorer_score profile)) ranking_sample)"
  by (rule rank_profiles_stable_descending)

text \<open>On the sample the higher score comes first and the two equal scores keep their order.\<close>

lemma rank_profiles_example:
  "map (\<lambda>x. (si_bot_score (fst x), si_sentiment_overall (fst x), qs_overall (snd x)))
     (rank_profiles ranking_sample)
   = [(Some 20, None, 49), (Some 80, None, 31), (Some 80, Some 0, 31)]"
  by code_simp

subsection \<open>InterestExtractor: common interests\<close>

lemma mset_set_and:
  "mset (set_and (py_set xs) (py_set ys)) = mset_set (set xs \<inter> set ys)"
proof -
  have d: "distinct (set_and (py_set xs) (py_set ys))" by (simp add: set_and_def py_set_def)
  have s: "set (set_and (py_set xs) (py_set ys)) = set xs \<inter> set ys"
    by (auto simp: set_and_def py_set_def)
  show ?thesis using mset_set_set[OF d] s by simp
qed

lemma mset_filter_set_and:
  "mset (filter (\<lambda>c. c \<noteq> g) (set_and (py_set xs) (py_set ys))) = mset_set (set xs \<inter> set ys - {g})"
proof -
  have d: "distinct (filter (\<lambda>c. c \<noteq> g) (set_and (py_set xs) (py_set ys)))"
    by (simp add: set_and_def py_set_def)
  have s: "set (filter (\<lambda>c. c \<noteq> g) (set_and (py_set xs) (py_set ys))) = set xs \<inter> set ys - {g}"
    by (auto simp: set_and_def py_set_def)
  show ?thesis using mset_set_set[OF d] s by simp
qed

text \<open>
  What the code returns, up to the order of the entries, which Python leaves to its
  sets: each interest that occurs in both lists when case is ignored, once and in
  lower case, and one marker \<^verbatim>\<open>[category]\<close> for each category, other than "general",
  that both lists have an interest in. A category is marked whether its interests in
  the two lists differ or coincide.
\<close>

lemma find_common_interests_mset:
  "mset (find_common_interests interests1 interests2) =
     mset_set (lower ` set interests1 \<inter> lower ` set interests2)
     + image_mset category_marker
         (mset_set (get_category ` set interests1 \<inter> get_category ` set interests2
                      - {py ''general''}))"
proof -
  have "find_common_interests interests1 interests2 =
      set_and (py_set (map lower interests1)) (py_set (map lower interests2))
      @ map category_marker
          (filter (\<lambda>cat. cat \<noteq> py ''general'')
             (set_and (py_set (map get_category interests1))
                (py_set (map get_category interests2))))"
    by (simp only: find_common_interests_def Let_def)
  then show ?thesis
    by (simp only: mset_append mset_map mset_set_and mset_filter_set_and set_map)
qed

text \<open>
  On two lists with two exact matches and one shared category beyond them: the
  marker of the category that "Music" and "film" share, and also the marker of the
  category of the exact match "python".
\<close>

lemma find_common_interests_example:
  "find_common_interests [py ''Python'', py ''Music'', py ''chess'']
     [py ''python'', py ''film'', py ''Chess'']
   = [py ''python'', py ''chess'', py ''[technology]'', py ''[entertainment]'']"
  by code_simp

text \<open>
  Claim C7 at a failing input. The two lists share the interest "python" and nothing
  beyond that exact match, neither list having another interest. The result holds the
  exact match and, besides it, the marker of its category: the categories are collected
  from all interests of each list, the exact matches included, where the comment of the
  source announces category matches for the "same category but different keyword".
\<close>

theorem find_common_interests_exact_only:
  "find_common_interests [py ''python''] [py ''python''] = [py ''python'', py ''[technology]'']"
  by code_simp

end
